theory Spec2Isabelle
  imports Complex_Main "HOL-Library.Word"
begin

section \<open>Python values shared by the classifiers\<close>

text \<open>
  The exceptions a classifier or the decoder can raise.  Every raise of the source is a
  value \<open>Inl e\<close> of the result type \<open>py_exc + 'a\<close>.
\<close>

datatype py_exc =
    IndexError
  | TypeError
  | AttributeError
  | UnboundLocalError
  | ValueError
  | KeyError
  | StructError
  | OSError
  | UnsupportedOperation

text \<open>
  \<open>list.__getitem__\<close> with an integer index: a negative index counts from the end of
  the list, and an index outside \<open>-len .. len - 1\<close> raises \<open>IndexError\<close>.
\<close>

definition py_index :: "'a list \<Rightarrow> int \<Rightarrow> py_exc + 'a" where
  "py_index xs i =
     (if 0 \<le> i \<and> i < int (length xs) then Inr (xs ! nat i)
      else if i < 0 \<and> - int (length xs) \<le> i then Inr (xs ! nat (int (length xs) + i))
      else Inl IndexError)"

text \<open>
  A local variable of a Python function is unbound until its first assignment, and
  reading it before raises \<open>UnboundLocalError\<close>; an attribute that \<open>__init__\<close> assigns
  on some paths only is not set on the others, and reading it there raises
  \<open>AttributeError\<close>.
\<close>

datatype 'a local_var = Unbound | Bound 'a

text \<open>
  \<open>for i, x in enumerate(xs): body\<close> where the body may raise: the loop threads the
  state through the indices in order and stops at the first exception.
\<close>

fun for_enumerate :: "(nat \<Rightarrow> 's \<Rightarrow> py_exc + 's) \<Rightarrow> nat list \<Rightarrow> 's \<Rightarrow> py_exc + 's" where
  "for_enumerate body [] s = Inr s"
| "for_enumerate body (i # is) s =
     (case body i s of Inl e \<Rightarrow> Inl e | Inr s' \<Rightarrow> for_enumerate body is s')"

record Position =
  x :: real
  y :: real

section \<open>enums/state.py: the constants the classifiers compare against\<close>

datatype Direction = LEFT | DOWN | RIGHT

definition Direction_value :: "Direction \<Rightarrow> int" where
  "Direction_value d = (case d of LEFT \<Rightarrow> -1 | DOWN \<Rightarrow> 0 | RIGHT \<Rightarrow> 1)"

definition Direction_name :: "Direction \<Rightarrow> string" where
  "Direction_name d = (case d of LEFT \<Rightarrow> ''LEFT'' | DOWN \<Rightarrow> ''DOWN'' | RIGHT \<Rightarrow> ''RIGHT'')"

datatype LCancel = NOT_APPLICABLE | SUCCESS | FAILURE

definition ActionState_TURN :: int where "ActionState_TURN = 18"
definition ActionState_DASH :: int where "ActionState_DASH = 20"
definition ActionState_KNEE_BEND :: int where "ActionState_KNEE_BEND = 24"
definition ActionState_LAND_FALL_SPECIAL :: int where "ActionState_LAND_FALL_SPECIAL = 43"
definition ActionRange_SQUAT_START :: int where "ActionRange_SQUAT_START = 39"
definition ActionRange_SQUAT_END :: int where "ActionRange_SQUAT_END = 41"

section \<open>The per-port frame data the classifiers read\<close>

text \<open>
  \<open>Frame.Port.Data\<close> with its \<open>pre\<close> and \<open>post\<close> structs, restricted to the fields the
  classifiers read.  \<open>physical_pressed\<close> is the list \<open>pre.buttons.physical.pressed()\<close>.
  Floats (percent, positions, velocities, the state age) are reals: the classifiers
  only compare, add and subtract them.
\<close>

datatype Physical =
    Physical_L | Physical_R | Physical_Z | Physical_A | Physical_B | Physical_X
  | Physical_Y | Physical_START

record Pre =
  joystick :: Position
  cstick :: Position
  physical_pressed :: "Physical list"

record Post =
  state :: int
  state_age :: real
  percent :: real
  stocks_remaining :: int
  position :: Position
  flags :: nat
  facing_direction :: Direction
  l_cancel :: LCancel
  most_recent_hit :: int
  is_airborne :: bool
  last_ground_id :: int
  knockback_speed :: Position

record PortData =
  pre :: Pre
  post :: Post

section \<open>stat\_types.py: the event records\<close>

text \<open>
  \<open>JoystickRegion\<close> is an \<open>IntEnum\<close>: the source compares its members, takes them
  modulo 2 and subtracts them, so a region is its integer value.  The enum itself is
  declared in \<open>stats/common.py\<close>; the value of \<open>JoystickRegion.DEAD_ZONE\<close> is a
  parameter \<open>DEAD_ZONE\<close> of the functions that use it.
\<close>

type_synonym JoystickRegion = int

text \<open>
  \<open>WavedashData\<close>.  \<open>r_frame\<close> is not a declared field: \<open>wavedash_compute\<close> assigns it
  as a new attribute of the object.  \<open>direction\<close> is assigned by \<open>__init__\<close> only for
  some angles of the stick; elsewhere the attribute is not set.
\<close>

record WavedashData =
  frame_index :: int
  stocks_remaining :: "int option"
  angle :: "real option"
  direction :: "string option local_var"
  trigger_frame :: int
  airdodge_frames :: int
  waveland :: bool
  r_frame :: "int option"

record DashData =
  frame_index :: int
  stocks_remaining :: "int option"
  start_pos :: real
  end_pos :: real
  direction :: "string option"
  is_dashdance :: bool

datatype TechType =
    MISSED_TECH | JAB_RESET | TECH_LEFT | TECH_RIGHT
  | MISSED_TECH_ROLL_LEFT | MISSED_TECH_ROLL_RIGHT | TechType_other string

record TechData =
  frame_index :: int
  stocks_remaining :: "int option"
  tech_type :: "string option"
  was_punished :: bool
  position :: Position
  ground_id :: "int option"
  is_on_platform :: bool
  is_missed_tech :: bool
  towards_center :: "bool option"
  towards_opponent :: "bool option"
  jab_reset :: "bool option"
  last_hit_by :: "string option"

record TakeHitData =
  frame_index :: int
  last_hit_by :: "int option"
  state_before_hit :: "int option"
  grounded :: "bool option"
  crouch_cancel :: "bool option"
  hitlag_frames :: int
  stick_regions_during_hitlag :: "JoystickRegion list"
  sdi_inputs :: "JoystickRegion list"
  asdi :: "JoystickRegion option"
  di_stick_pos :: "Position option"
  percent :: "real option"
  kb_velocity :: "Position option"
  kb_angle :: "real option"
  final_kb_velocity :: "Position option"
  final_kb_angle :: "real option"
  start_pos :: "Position option"
  end_pos :: "Position option"
  di_efficacy :: "real option"

record LCancelData =
  frame_index :: int
  stocks_remaining :: int
  l_cancel :: bool
  move :: int
  position :: int
  trigger_input_frame :: "int option"
  during_hitlag :: bool
  fastfall :: bool

text \<open>\<open>LCancels\<close>: the list wrapper with its \<open>percentage\<close> attribute.\<close>

record LCancels =
  data :: "LCancelData list"
  percentage :: "real option"

text \<open>
  A call with keyword arguments binds when every keyword given is a parameter of the
  callee and every parameter without a default is given; otherwise the call raises
  \<open>TypeError\<close> before the callee's body runs.
\<close>

definition binds_keywords :: "string list \<Rightarrow> string list \<Rightarrow> string list \<Rightarrow> bool" where
  "binds_keywords params required given =
     (list_all (\<lambda>k. k \<in> set params) given \<and> list_all (\<lambda>k. k \<in> set given) required)"

text \<open>
  The parameters of \<open>WavedashData.__init__\<close> (written by hand in the class; only
  \<open>frame_index\<close> has no default) and of the \<open>__init__\<close> that \<open>@dataclass\<close> generates
  for \<open>LCancelData\<close> (one parameter per field, none with a default).
\<close>

definition WavedashData_params :: "string list" where
  "WavedashData_params =
     [''frame_index'', ''stocks_remaining'', ''trigger_frame'', ''stick'', ''airdodge_frames'']"

definition WavedashData_required :: "string list" where
  "WavedashData_required = [''frame_index'']"

definition LCancelData_params :: "string list" where
  "LCancelData_params =
     [''frame_index'', ''stocks_remaining'', ''l_cancel'', ''move'', ''position'',
      ''trigger_input_frame'', ''during_hitlag'', ''fastfall'']"

text \<open>
  The attributes an instance of \<open>TakeHitData\<close> has: its fields and the methods of the
  class.  Looking up any other name raises \<open>AttributeError\<close>.
\<close>

definition TakeHitData_attributes :: "string list" where
  "TakeHitData_attributes =
     [''frame_index'', ''last_hit_by'', ''state_before_hit'', ''grounded'', ''crouch_cancel'',
      ''hitlag_frames'', ''stick_regions_during_hitlag'', ''sdi_inputs'', ''asdi'',
      ''di_stick_pos'', ''percent'', ''kb_velocity'', ''kb_angle'', ''final_kb_velocity'',
      ''final_kb_angle'', ''start_pos'', ''end_pos'', ''di_efficacy'',
      ''_find_valid_sdi'', ''change_in_position'', ''distance'']"

text \<open>\<open>TakeHitData.__init__\<close>.\<close>

definition TakeHitData_init :: TakeHitData where
  "TakeHitData_init =
     \<lparr> TakeHitData.frame_index = -1, TakeHitData.last_hit_by = None,
       state_before_hit = None, grounded = None, crouch_cancel = None, hitlag_frames = 0,
       stick_regions_during_hitlag = [], sdi_inputs = [], asdi = None, di_stick_pos = None,
       TakeHitData.percent = None, kb_velocity = None, kb_angle = None,
       final_kb_velocity = None, final_kb_angle = None, TakeHitData.start_pos = None,
       TakeHitData.end_pos = None, di_efficacy = None \<rparr>"

text \<open>
  One iteration of the loop of the method \<open>TakeHitData._find_valid_sdi\<close> (named
  \<open>find_valid_sdi\<close> here: a name cannot start with an underscore), on the accumulated
  \<open>sdi_inputs\<close>.  \<open>regions\<close> is \<open>self.stick_regions_during_hitlag\<close>; the iteration is
  at index \<open>i\<close> with \<open>stick_region = regions[i]\<close>.  The lookup of \<open>regions[i - 1]\<close>
  happens only after the test \<open>i == 0\<close>, so its index is in range.  Python's \<open>%\<close> with a
  positive divisor is HOL's \<open>mod\<close> on \<open>int\<close>.
\<close>

definition find_valid_sdi_body ::
  "JoystickRegion \<Rightarrow> JoystickRegion list \<Rightarrow> nat \<Rightarrow> JoystickRegion \<Rightarrow>
   JoystickRegion list \<Rightarrow> JoystickRegion list" where
  "find_valid_sdi_body DEAD_ZONE regions i stick_region sdi =
     (if i = 0 \<or> stick_region = DEAD_ZONE then sdi
      else let prev_stick_region = regions ! (i - 1) in
        if stick_region = prev_stick_region then sdi
        else if prev_stick_region = DEAD_ZONE then sdi @ [stick_region]
        else if prev_stick_region mod 2 = 0 then sdi @ [stick_region]
        else if prev_stick_region mod 2 = 1 then
          (if stick_region mod 2 = 1 then sdi @ [stick_region]
           else if 3 \<le> \<bar>stick_region - prev_stick_region\<bar>
                   \<and> \<bar>stick_region - prev_stick_region\<bar> < 7 then sdi @ [stick_region]
           else sdi)
        else sdi)"

fun find_valid_sdi_loop ::
  "JoystickRegion \<Rightarrow> JoystickRegion list \<Rightarrow> nat list \<Rightarrow> JoystickRegion list \<Rightarrow>
   JoystickRegion list" where
  "find_valid_sdi_loop DEAD_ZONE regions [] sdi = sdi"
| "find_valid_sdi_loop DEAD_ZONE regions (i # is) sdi =
     find_valid_sdi_loop DEAD_ZONE regions is
       (find_valid_sdi_body DEAD_ZONE regions i (regions ! i) sdi)"

definition find_valid_sdi :: "JoystickRegion \<Rightarrow> TakeHitData \<Rightarrow> TakeHitData" where
  "find_valid_sdi DEAD_ZONE self =
     self\<lparr> sdi_inputs :=
       find_valid_sdi_loop DEAD_ZONE (stick_regions_during_hitlag self)
         [0 ..< length (stick_regions_during_hitlag self)] (sdi_inputs self) \<rparr>"

text \<open>
  The sample at index \<open>i\<close> contributes an entry when the loop body run at \<open>i\<close> changes
  the accumulated list.
\<close>

definition sdi_contributes :: "JoystickRegion \<Rightarrow> JoystickRegion list \<Rightarrow> nat \<Rightarrow> bool" where
  "sdi_contributes DEAD_ZONE regions i =
     (find_valid_sdi_body DEAD_ZONE regions i (regions ! i) [] \<noteq> [])"

section \<open>stats/common.py: the helpers of the classifiers\<close>

text \<open>
  The helper functions and the \<open>JoystickRegion\<close> members that the classifiers import
  from \<open>stats/common.py\<close>, the ground table and \<open>try_enum\<close> are declared outside the
  files at hand, and \<open>math.degrees\<close> is a library function on floats.  They are
  parameters: the fields of \<open>Common\<close>.  A Python \<open>float\<close> is held as a real; where
  the source computes a rounded value from floats (the truncated \<open>di_efficacy\<close> and the
  percentage of L-cancels) the float operations \<open>-\<close>, \<open>*\<close>, \<open>/\<close> and \<open>%\<close> and the
  literal \<open>1e-2\<close> are parameters too, so that no value is claimed for them.  \<open>Attack_name v\<close> is
  \<open>try_enum(Attack, v).name\<close>, which is \<open>None\<close> when \<open>v\<close> is not a member of \<open>Attack\<close>
  (the lookup of \<open>name\<close> on a plain \<open>int\<close> then raises \<open>AttributeError\<close>).
\<close>

record Common =
  is_in_hitlag :: "nat \<Rightarrow> bool"
  is_fastfalling :: "nat \<Rightarrow> bool"
  is_shielding :: "int \<Rightarrow> bool"
  is_teching :: "int \<Rightarrow> bool"
  is_damaged :: "int \<Rightarrow> bool"
  just_took_damage :: "real \<Rightarrow> real \<Rightarrow> bool"
  just_input_l_cancel :: "PortData \<Rightarrow> PortData \<Rightarrow> bool"
  get_joystick_region :: "Position \<Rightarrow> JoystickRegion"
  get_angle :: "Position \<Rightarrow> real"
  degrees :: "real \<Rightarrow> real"
  get_post_di_angle :: "Position \<Rightarrow> Position \<Rightarrow> real"
  get_post_di_velocity :: "real \<Rightarrow> Position \<Rightarrow> Position"
  get_tech_type :: "int \<Rightarrow> Direction \<Rightarrow> TechType"
  get_ground :: "nat \<Rightarrow> int \<Rightarrow> int"
  Attack_name :: "int \<Rightarrow> string option"
  JoystickRegion_DEAD_ZONE :: JoystickRegion
  JoystickRegion_UP :: JoystickRegion
  JoystickRegion_DOWN :: JoystickRegion
  JoystickRegion_LEFT :: JoystickRegion
  JoystickRegion_RIGHT :: JoystickRegion
  float_sub :: "real \<Rightarrow> real \<Rightarrow> real"
  float_mul :: "real \<Rightarrow> real \<Rightarrow> real"
  float_div :: "real \<Rightarrow> real \<Rightarrow> real"
  float_mod :: "real \<Rightarrow> real \<Rightarrow> real"
  float_hundredth :: real

text \<open>
  Modelled from the spec: \<open>just_entered_state\<close> and \<open>just_exited_state\<close> of
  \<open>stats/common.py\<close> are missing; the specification calls them the rising edge into
  and the falling edge out of an action state.
\<close>

definition just_entered_state :: "int \<Rightarrow> int \<Rightarrow> int \<Rightarrow> bool" where
  "just_entered_state action_state curr_state prev_state =
     (curr_state = action_state \<and> prev_state \<noteq> action_state)"

definition just_exited_state :: "int \<Rightarrow> int \<Rightarrow> int \<Rightarrow> bool" where
  "just_exited_state action_state curr_state prev_state =
     (curr_state \<noteq> action_state \<and> prev_state = action_state)"

section \<open>stats/stats\_computer.py: StatsComputer\<close>

text \<open>
  The state of a \<open>StatsComputer\<close>: the "current event" accumulators, and the replay
  version and stage it reads from \<open>self.replay\<close>.
\<close>

record StatsComputer =
  wavedash_state :: "WavedashData option"
  tech_state :: "TechData option"
  dash_state :: "DashData option"
  take_hit_state :: "TakeHitData option"
  replay_version :: "nat \<times> nat \<times> nat"
  stage :: nat

text \<open>\<open>StatsComputer.__init__\<close> for a replay of the given version and stage.\<close>

definition StatsComputer_init :: "nat \<times> nat \<times> nat \<Rightarrow> nat \<Rightarrow> StatsComputer" where
  "StatsComputer_init version stg =
     \<lparr> wavedash_state = None, tech_state = None, dash_state = None, take_hit_state = None,
       replay_version = version, stage = stg \<rparr>"

text \<open>Python's comparison \<open><\<close> of two 3-tuples of integers.\<close>

definition version_less :: "nat \<times> nat \<times> nat \<Rightarrow> nat \<times> nat \<times> nat \<Rightarrow> bool" where
  "version_less v w =
     (case v of (a, b, c) \<Rightarrow> case w of (d, e, f) \<Rightarrow>
        a < d \<or> (a = d \<and> (b < e \<or> (b = e \<and> c < f))))"

text \<open>
  Every classifier starts with the same argument check: with neither a connect code nor
  a player it raises \<open>ValueError\<close>; a connect code is resolved by \<open>get_player\<close> (of
  \<open>stats/computer.py\<close>, a parameter here), otherwise the player given is used.  The
  classifiers below are the code after this check, on the resolved player.
\<close>

definition resolve_player ::
  "(string \<Rightarrow> py_exc + 'p) \<Rightarrow> string option \<Rightarrow> 'p option \<Rightarrow> py_exc + 'p" where
  "resolve_player get_player connect_code player =
     (case connect_code of
        Some c \<Rightarrow> get_player c
      | None \<Rightarrow> (case player of None \<Rightarrow> Inl ValueError | Some p \<Rightarrow> Inr p))"

subsection \<open>wavedash\_compute\<close>

text \<open>
  \<open>WavedashData.__init__(frame_index, stocks_remaining, trigger_frame, stick,
  airdodge_frames)\<close>: the body of the constructor.  The five \<open>if\<close> statements on the
  angle run one after the other; when none of them assigns \<open>self.direction\<close> the
  attribute stays unset.
\<close>

definition WavedashData_init ::
  "Common \<Rightarrow> int \<Rightarrow> int option \<Rightarrow> int \<Rightarrow> Position option \<Rightarrow> int \<Rightarrow> WavedashData" where
  "WavedashData_init h fi stocks tf stick af =
     (case stick of
        None \<Rightarrow>
          \<lparr> WavedashData.frame_index = fi, WavedashData.stocks_remaining = stocks,
            angle = None, WavedashData.direction = Bound None, trigger_frame = tf,
            airdodge_frames = af, waveland = True, r_frame = None \<rparr>
      | Some st \<Rightarrow>
          (let a0 = degrees h (get_angle h st);
               (a1, d1) = (if a0 < 270 \<and> a0 > 180 then (a0 - 180, Bound (Some ''LEFT''))
                           else (a0, Unbound));
               (a2, d2) = (if a1 > 270 \<and> a1 < 360 then (a1 - 270, Bound (Some ''RIGHT''))
                           else (a1, d1));
               (a3, d3) = (if a2 = 180 then (0, Bound (Some ''LEFT'')) else (a2, d2));
               (a4, d4) = (if a3 = 0 then (a3, Bound (Some ''RIGHT'')) else (a3, d3));
               (a5, d5) = (if a4 = 270 then (90, Bound (Some ''DOWN'')) else (a4, d4))
           in \<lparr> WavedashData.frame_index = fi, WavedashData.stocks_remaining = stocks,
                angle = Some a5, WavedashData.direction = d5, trigger_frame = tf,
                airdodge_frames = af, waveland = True, r_frame = None \<rparr>))"

text \<open>
  The call in \<open>wavedash_compute\<close>:
  \<open>WavedashData(frame_index=i, stocks_remaining=..., r_frame=0, stick=..., airdodge_frames=j)\<close>.
  The keywords are bound against the parameters of the constructor first.
\<close>

definition WavedashData_call ::
  "Common \<Rightarrow> nat \<Rightarrow> PortData \<Rightarrow> nat \<Rightarrow> py_exc + WavedashData" where
  "WavedashData_call h i player_frame j =
     (if binds_keywords WavedashData_params WavedashData_required
           [''frame_index'', ''stocks_remaining'', ''r_frame'', ''stick'', ''airdodge_frames'']
      then Inr (WavedashData_init h (int i) (Some (Post.stocks_remaining (post player_frame)))
                  0 (Some (joystick (pre player_frame))) (int j))
      else Inl TypeError)"

text \<open>The loop \<open>for k in range(0, 5)\<close> that looks for the last jump-squat frame.\<close>

fun wavedash_k_loop ::
  "PortData list \<Rightarrow> nat \<Rightarrow> nat \<Rightarrow> nat list \<Rightarrow> WavedashData \<Rightarrow> py_exc + WavedashData" where
  "wavedash_k_loop frames i j [] w = Inr w"
| "wavedash_k_loop frames i j (k # ks) w =
     (case py_index frames (int i - int j - int k) of
        Inl e \<Rightarrow> Inl e
      | Inr past_frame \<Rightarrow>
          if Post.state (post past_frame) = ActionState_KNEE_BEND
          then Inr (w\<lparr> r_frame := Some (int k), waveland := False \<rparr>)
          else wavedash_k_loop frames i j ks w)"

text \<open>The loop \<open>for j in range(0, 5)\<close> over the frames before the landing.\<close>

fun wavedash_j_loop ::
  "Common \<Rightarrow> PortData list \<Rightarrow> nat \<Rightarrow> nat list \<Rightarrow> WavedashData option \<Rightarrow>
   py_exc + WavedashData option" where
  "wavedash_j_loop h frames i [] ws = Inr ws"
| "wavedash_j_loop h frames i (j # js) ws =
     (case py_index frames (int i - int j) of
        Inl e \<Rightarrow> Inl e
      | Inr past_frame \<Rightarrow>
          if Physical_R \<in> set (physical_pressed (pre past_frame))
             \<or> Physical_L \<in> set (physical_pressed (pre past_frame))
          then (case WavedashData_call h i (frames ! i) j of
                  Inl e \<Rightarrow> Inl e
                | Inr w \<Rightarrow>
                    (case wavedash_k_loop frames i j [0 ..< 5] w of
                       Inl e \<Rightarrow> Inl e
                     | Inr w' \<Rightarrow> wavedash_j_loop h frames i js (Some w')))
          else wavedash_j_loop h frames i js ws)"

text \<open>
  One iteration of the frame loop, on the pair of \<open>self\<close> and \<open>player.stats.wavedashes\<close>,
  given the previous frame of the player.
\<close>

definition wavedash_step ::
  "Common \<Rightarrow> PortData list \<Rightarrow> nat \<Rightarrow> PortData \<Rightarrow> StatsComputer \<times> WavedashData list \<Rightarrow>
   py_exc + StatsComputer \<times> WavedashData list" where
  "wavedash_step h frames i prev_player_frame s =
     (case s of (self, wavedashes) \<Rightarrow>
        if Post.state (post (frames ! i)) \<noteq> ActionState_LAND_FALL_SPECIAL then Inr s
        else if Post.state (post prev_player_frame) = ActionState_LAND_FALL_SPECIAL then Inr s
        else
          (case wavedash_j_loop h frames i [0 ..< 5] (wavedash_state self) of
             Inl e \<Rightarrow> Inl e
           | Inr ws \<Rightarrow>
               (case ws of
                  None \<Rightarrow> Inr (self\<lparr> wavedash_state := ws \<rparr>, wavedashes)
                | Some w \<Rightarrow> Inr (self\<lparr> wavedash_state := ws \<rparr>, wavedashes @ [w]))))"

definition wavedash_body ::
  "Common \<Rightarrow> PortData list \<Rightarrow> nat \<Rightarrow> StatsComputer \<times> WavedashData list \<Rightarrow>
   py_exc + StatsComputer \<times> WavedashData list" where
  "wavedash_body h frames i s =
     (case py_index frames (int i - 1) of
        Inl e \<Rightarrow> Inl e
      | Inr prev_player_frame \<Rightarrow> wavedash_step h frames i prev_player_frame s)"

definition wavedash_compute ::
  "Common \<Rightarrow> StatsComputer \<Rightarrow> PortData list \<Rightarrow> WavedashData list \<Rightarrow>
   py_exc + StatsComputer \<times> WavedashData list" where
  "wavedash_compute h self frames wavedashes =
     for_enumerate (wavedash_body h frames) [0 ..< length frames] (self, wavedashes)"

subsection \<open>dash\_compute\<close>

text \<open>
  \<open>DashData(frame_index=i, stocks_remaining=..., direction=..., start_pos=...,
  is_dashdance=False)\<close>: every keyword is a field of the dataclass, and \<open>end_pos\<close> takes
  its default.
\<close>

definition DashData_new :: "nat \<Rightarrow> Post \<Rightarrow> DashData" where
  "DashData_new i player_post =
     \<lparr> DashData.frame_index = int i,
       DashData.stocks_remaining = Some (Post.stocks_remaining player_post),
       DashData.start_pos = x (Post.position player_post),
       DashData.end_pos = 0,
       DashData.direction = Some (Direction_name (facing_direction player_post)),
       is_dashdance = False \<rparr>"

text \<open>\<open>player.stats.dashes[-1].is_dashdance = True\<close>.\<close>

definition mark_last_dashdance :: "DashData list \<Rightarrow> py_exc + DashData list" where
  "mark_last_dashdance dashes =
     (case py_index dashes (-1) of
        Inl e \<Rightarrow> Inl e
      | Inr d \<Rightarrow> Inr (dashes[length dashes - 1 := d\<lparr> is_dashdance := True \<rparr>]))"

text \<open>
  The two \<open>if\<close> blocks of one iteration, given the states of the previous two frames.
\<close>

definition dash_enter ::
  "nat \<Rightarrow> Post \<Rightarrow> int \<Rightarrow> int \<Rightarrow> StatsComputer \<times> DashData list \<Rightarrow>
   py_exc + StatsComputer \<times> DashData list" where
  "dash_enter i player_post prev_player_state prev_prev_player_state s =
     (case s of (self, dashes) \<Rightarrow>
        if just_entered_state ActionState_DASH (Post.state player_post) prev_player_state then
          (if prev_player_state = ActionState_TURN \<and> prev_prev_player_state = ActionState_DASH
           then (case mark_last_dashdance dashes of
                   Inl e \<Rightarrow> Inl e
                 | Inr dashes' \<Rightarrow>
                     Inr (self\<lparr> dash_state :=
                            Some ((DashData_new i player_post)\<lparr> is_dashdance := True \<rparr>) \<rparr>,
                          dashes'))
           else Inr (self\<lparr> dash_state := Some (DashData_new i player_post) \<rparr>, dashes))
        else Inr s)"

definition dash_exit ::
  "Post \<Rightarrow> int \<Rightarrow> StatsComputer \<times> DashData list \<Rightarrow>
   py_exc + StatsComputer \<times> DashData list" where
  "dash_exit player_post prev_player_state s =
     (case s of (self, dashes) \<Rightarrow>
        if just_exited_state ActionState_DASH (Post.state player_post) prev_player_state then
          (case dash_state self of
             None \<Rightarrow> Inl AttributeError
           | Some d \<Rightarrow>
               Inr (self\<lparr> dash_state := None \<rparr>,
                    dashes @ [d\<lparr> DashData.end_pos := x (Post.position player_post) \<rparr>]))
        else Inr s)"

definition dash_step ::
  "nat \<Rightarrow> PortData \<Rightarrow> PortData \<Rightarrow> PortData \<Rightarrow> StatsComputer \<times> DashData list \<Rightarrow>
   py_exc + StatsComputer \<times> DashData list" where
  "dash_step i player_frame prev_player_frame prev_prev_player_frame s =
     (case dash_enter i (post player_frame) (Post.state (post prev_player_frame))
             (Post.state (post prev_prev_player_frame)) s of
        Inl e \<Rightarrow> Inl e
      | Inr s' \<Rightarrow> dash_exit (post player_frame) (Post.state (post prev_player_frame)) s')"

definition dash_body ::
  "PortData list \<Rightarrow> nat \<Rightarrow> StatsComputer \<times> DashData list \<Rightarrow>
   py_exc + StatsComputer \<times> DashData list" where
  "dash_body frames i s =
     (case py_index frames (int i - 1) of
        Inl e \<Rightarrow> Inl e
      | Inr prev_player_frame \<Rightarrow>
          (case py_index frames (int i - 2) of
             Inl e \<Rightarrow> Inl e
           | Inr prev_prev_player_frame \<Rightarrow>
               dash_step i (frames ! i) prev_player_frame prev_prev_player_frame s))"

definition dash_compute ::
  "StatsComputer \<Rightarrow> PortData list \<Rightarrow> DashData list \<Rightarrow>
   py_exc + StatsComputer \<times> DashData list" where
  "dash_compute self frames dashes =
     for_enumerate (dash_body frames) [0 ..< length frames] (self, dashes)"

subsection \<open>tech\_compute\<close>

definition TechType_name :: "TechType \<Rightarrow> string" where
  "TechType_name t =
     (case t of
        MISSED_TECH \<Rightarrow> ''MISSED_TECH'' | JAB_RESET \<Rightarrow> ''JAB_RESET''
      | TECH_LEFT \<Rightarrow> ''TECH_LEFT'' | TECH_RIGHT \<Rightarrow> ''TECH_RIGHT''
      | MISSED_TECH_ROLL_LEFT \<Rightarrow> ''MISSED_TECH_ROLL_LEFT''
      | MISSED_TECH_ROLL_RIGHT \<Rightarrow> ''MISSED_TECH_ROLL_RIGHT''
      | TechType_other n \<Rightarrow> n)"

text \<open>
  The block that opens a tech record: the constructor call with the fields it names (the
  others take their defaults), then the two optional assignments.
\<close>

definition tech_open ::
  "Common \<Rightarrow> bool \<Rightarrow> nat \<Rightarrow> nat \<Rightarrow> PortData \<Rightarrow> PortData \<Rightarrow> py_exc + TechData" where
  "tech_open h ground_check stg i player_frame opponent_frame =
     (let t0 = \<lparr> TechData.frame_index = int i,
                 TechData.stocks_remaining = Some (Post.stocks_remaining (post player_frame)),
                 tech_type = None, was_punished = False,
                 TechData.position = Post.position (post player_frame),
                 ground_id = None,
                 is_on_platform = (y (Post.position (post player_frame)) > 5),
                 is_missed_tech = False, towards_center = None, towards_opponent = None,
                 jab_reset = None, TechData.last_hit_by = None \<rparr>;
          ground = (if ground_check
                    then Some (get_ground h stg (last_ground_id (post player_frame)))
                    else None)
      in if most_recent_hit (post opponent_frame) \<noteq> 0 then
           (case Attack_name h (most_recent_hit (post opponent_frame)) of
              None \<Rightarrow> Inl AttributeError
            | Some n \<Rightarrow> Inr (t0\<lparr> ground_id := ground, TechData.last_hit_by := Some n \<rparr>))
         else Inr (t0\<lparr> ground_id := ground \<rparr>))"

text \<open>The \<open>match tech_type\<close> statement and the assignment of the name after it.\<close>

definition tech_classify :: "TechType \<Rightarrow> PortData \<Rightarrow> PortData \<Rightarrow> TechData \<Rightarrow> TechData" where
  "tech_classify tt player_frame opponent_frame t =
     (let opnt_relative_position =
            x (Post.position (post opponent_frame)) - x (Post.position (post player_frame));
          facing = Direction_value (facing_direction (post player_frame));
          t' = (case tt of
                  MISSED_TECH \<Rightarrow> t\<lparr> is_missed_tech := True, jab_reset := Some False \<rparr>
                | JAB_RESET \<Rightarrow> t\<lparr> jab_reset := Some True \<rparr>
                | TECH_LEFT \<Rightarrow>
                    t\<lparr> towards_center := Some (facing > 0),
                       towards_opponent := Some (opnt_relative_position > 0) \<rparr>
                | MISSED_TECH_ROLL_LEFT \<Rightarrow>
                    t\<lparr> towards_center := Some (facing > 0),
                       towards_opponent := Some (opnt_relative_position > 0) \<rparr>
                | TECH_RIGHT \<Rightarrow>
                    t\<lparr> towards_center := Some (\<not> facing > 0),
                       towards_opponent := Some (\<not> opnt_relative_position > 0) \<rparr>
                | MISSED_TECH_ROLL_RIGHT \<Rightarrow>
                    t\<lparr> towards_center := Some (\<not> facing > 0),
                       towards_opponent := Some (\<not> opnt_relative_position > 0) \<rparr>
                | TechType_other n \<Rightarrow> t)
      in t'\<lparr> tech_type := Some (TechType_name tt) \<rparr>)"

text \<open>One iteration, given the previous frame of the player.\<close>

definition tech_step ::
  "Common \<Rightarrow> bool \<Rightarrow> PortData list \<Rightarrow> nat \<Rightarrow> PortData \<Rightarrow> PortData \<Rightarrow>
   StatsComputer \<times> TechData list \<Rightarrow> py_exc + StatsComputer \<times> TechData list" where
  "tech_step h ground_check opponent_frames i player_frame prev_player_frame s =
     (case s of (self, techs) \<Rightarrow>
      (let player_state = Post.state (post player_frame);
           prev_player_state = Post.state (post prev_player_frame);
           curr_teching = is_teching h player_state;
           was_teching = is_teching h prev_player_state
       in if \<not> curr_teching then
            (if was_teching then
               (case tech_state self of
                  None \<Rightarrow> Inr s
                | Some t \<Rightarrow>
                    Inr (self\<lparr> tech_state := None \<rparr>,
                         techs @ [if is_damaged h player_state
                                  then t\<lparr> was_punished := True \<rparr> else t]))
             else Inr s)
          else
            (case py_index opponent_frames (int i) of
               Inl e \<Rightarrow> Inl e
             | Inr opponent_frame \<Rightarrow>
                 (case (if \<not> was_teching
                        then (case tech_open h ground_check (stage self) i player_frame
                                     opponent_frame of
                                Inl e \<Rightarrow> Inl e
                              | Inr t \<Rightarrow> Inr (self\<lparr> tech_state := Some t \<rparr>))
                        else Inr self) of
                    Inl e \<Rightarrow> Inl e
                  | Inr self1 \<Rightarrow>
                      if player_state = prev_player_state then Inr (self1, techs)
                      else
                        (case tech_state self1 of
                           None \<Rightarrow> Inl AttributeError
                         | Some t \<Rightarrow>
                             Inr (self1\<lparr> tech_state := Some
                                    (tech_classify
                                       (get_tech_type h player_state
                                          (facing_direction (post player_frame)))
                                       player_frame opponent_frame t) \<rparr>,
                                  techs))))))"

definition tech_body ::
  "Common \<Rightarrow> bool \<Rightarrow> PortData list \<Rightarrow> PortData list \<Rightarrow> nat \<Rightarrow>
   StatsComputer \<times> TechData list \<Rightarrow> py_exc + StatsComputer \<times> TechData list" where
  "tech_body h ground_check frames opponent_frames i s =
     (case py_index frames (int i - 1) of
        Inl e \<Rightarrow> Inl e
      | Inr prev_player_frame \<Rightarrow>
          tech_step h ground_check opponent_frames i (frames ! i) prev_player_frame s)"

definition tech_compute ::
  "Common \<Rightarrow> StatsComputer \<Rightarrow> PortData list \<Rightarrow> PortData list \<Rightarrow> TechData list \<Rightarrow>
   py_exc + StatsComputer \<times> TechData list" where
  "tech_compute h self frames opponent_frames techs =
     for_enumerate
       (tech_body h (\<not> version_less (replay_version self) (2, 0, 0)) frames opponent_frames)
       [0 ..< length frames] (self\<lparr> tech_state := None \<rparr>, techs)"

subsection \<open>take\_hit\_compute\<close>

text \<open>
  \<open>effective_stick\<close>: the \<open>match\<close> on the region of the joystick.  The source assigns to
  the attributes of \<open>player_frame.pre.joystick\<close> itself (\<open>effective_stick\<close> is the same
  object), so after the \<open>match\<close> the joystick of the frame is the effective stick; the
  later read of \<open>player_frame.pre.joystick\<close> for \<open>asdi\<close> sees it.
\<close>

definition take_hit_effective_stick :: "Common \<Rightarrow> Position \<Rightarrow> Position" where
  "take_hit_effective_stick h stick =
     (let region = get_joystick_region h stick in
      if region = JoystickRegion_UP h then stick\<lparr> x := 0 \<rparr>
      else if region = JoystickRegion_DOWN h then stick\<lparr> x := 0 \<rparr>
      else if region = JoystickRegion_LEFT h then stick\<lparr> y := 0 \<rparr>
      else if region = JoystickRegion_RIGHT h then stick\<lparr> y := 0 \<rparr>
      else if region = JoystickRegion_DEAD_ZONE h then stick\<lparr> x := 0, y := 0 \<rparr>
      else stick)"

text \<open>
  The block under \<open>if knockback_check\<close> when a window closes.  Reading \<open>.x\<close> of a
  \<open>kb_velocity\<close> that is \<open>None\<close> raises \<open>AttributeError\<close>; arithmetic on a \<open>kb_angle\<close>
  that is \<open>None\<close> raises \<open>TypeError\<close>.
\<close>

definition take_hit_knockback :: "Common \<Rightarrow> Position \<Rightarrow> TakeHitData \<Rightarrow> py_exc + TakeHitData" where
  "take_hit_knockback h effective_stick t =
     (case kb_velocity t of
        None \<Rightarrow> Inl AttributeError
      | Some kbv \<Rightarrow>
          (case kb_angle t of
             None \<Rightarrow> Inl TypeError
           | Some ka \<Rightarrow>
               if x kbv \<noteq> 0 \<and> y kbv \<noteq> 0 then
                 (let fa = get_post_di_angle h effective_stick kbv;
                      di = float_mul h (float_div h \<bar>float_sub h fa ka\<bar> 18) 100
                  in Inr (t\<lparr> final_kb_angle := Some fa,
                            di_efficacy :=
                              Some (float_sub h di (float_mod h di (float_hundredth h))),
                            final_kb_velocity := Some (get_post_di_velocity h fa kbv) \<rparr>))
               else
                 Inr (t\<lparr> final_kb_angle := Some ka,
                         final_kb_velocity := Some (get_post_di_velocity h ka kbv) \<rparr>)))"

text \<open>
  Everything the closing branch assigns to the record before it calls
  \<open>self.take_hit_state.find_valid_sdi()\<close>.
\<close>

definition take_hit_close ::
  "Common \<Rightarrow> bool \<Rightarrow> PortData \<Rightarrow> PortData \<Rightarrow> TakeHitData \<Rightarrow> py_exc + TakeHitData" where
  "take_hit_close h knockback_check player_frame prev_player_frame t =
     (let effective_stick = take_hit_effective_stick h (joystick (pre player_frame));
          t1 = t\<lparr> TakeHitData.end_pos := Some (Post.position (post prev_player_frame)),
                  di_stick_pos := Some effective_stick \<rparr>
      in case (if knockback_check then take_hit_knockback h effective_stick t1 else Inr t1) of
           Inl e \<Rightarrow> Inl e
         | Inr t2 \<Rightarrow>
             (let cs = get_joystick_region h (cstick (pre player_frame)) in
              Inr (t2\<lparr> asdi := Some (if cs \<noteq> JoystickRegion_DEAD_ZONE h then cs
                                      else get_joystick_region h effective_stick) \<rparr>)))"

text \<open>The record a new window opens with.\<close>

definition take_hit_open ::
  "Common \<Rightarrow> bool \<Rightarrow> nat \<Rightarrow> PortData \<Rightarrow> PortData \<Rightarrow> PortData \<Rightarrow> TakeHitData" where
  "take_hit_open h knockback_check i player_frame prev_player_frame opponent_frame =
     TakeHitData_init
       \<lparr> TakeHitData.frame_index := int i,
         TakeHitData.last_hit_by := Some (most_recent_hit (post opponent_frame)),
         state_before_hit := Some (Post.state (post prev_player_frame)),
         TakeHitData.start_pos := Some (Post.position (post player_frame)),
         TakeHitData.percent := Some (Post.percent (post player_frame)),
         grounded := Some (\<not> is_airborne (post player_frame)),
         kb_velocity := (if knockback_check then Some (knockback_speed (post player_frame))
                         else None),
         kb_angle := (if knockback_check
                      then Some (degrees h (get_angle h (knockback_speed (post player_frame))))
                      else None),
         crouch_cancel := Some (ActionRange_SQUAT_START \<le> Post.state (post prev_player_frame)
                                \<and> Post.state (post prev_player_frame) < ActionRange_SQUAT_END) \<rparr>"

text \<open>
  One iteration, given the previous frame of the player and the frame of the opponent.
  The call \<open>self.take_hit_state.find_valid_sdi()\<close> looks the name \<open>find_valid_sdi\<close> up
  on the record.
\<close>

definition take_hit_step ::
  "Common \<Rightarrow> bool \<Rightarrow> nat \<Rightarrow> PortData \<Rightarrow> PortData \<Rightarrow> PortData \<Rightarrow>
   StatsComputer \<times> TakeHitData list \<Rightarrow> py_exc + StatsComputer \<times> TakeHitData list" where
  "take_hit_step h knockback_check i player_frame prev_player_frame opponent_frame s =
     (case s of (self, take_hits) \<Rightarrow>
      (let in_hitlag = (is_in_hitlag h (flags (post player_frame))
                        \<and> \<not> is_shielding h (Post.state (post prev_player_frame)));
           was_in_hitlag = (is_in_hitlag h (flags (post prev_player_frame))
                            \<and> \<not> is_shielding h (Post.state (post prev_player_frame)))
       in if \<not> in_hitlag then
            (if was_in_hitlag then
               (case take_hit_state self of
                  None \<Rightarrow> Inr s
                | Some t \<Rightarrow>
                    (case take_hit_close h knockback_check player_frame prev_player_frame t of
                       Inl e \<Rightarrow> Inl e
                     | Inr t' \<Rightarrow>
                         if ''find_valid_sdi'' \<in> set TakeHitData_attributes
                         then Inr (self\<lparr> take_hit_state := None \<rparr>,
                                   take_hits @ [find_valid_sdi (JoystickRegion_DEAD_ZONE h) t'])
                         else Inl AttributeError))
             else Inr s)
          else
            (let self1 =
                   (if \<not> was_in_hitlag
                       \<and> just_took_damage h (Post.percent (post player_frame))
                            (Post.percent (post prev_player_frame))
                    then self\<lparr> take_hit_state :=
                           Some (take_hit_open h knockback_check i player_frame
                                   prev_player_frame opponent_frame) \<rparr>
                    else self)
             in case take_hit_state self1 of
                  None \<Rightarrow> Inr (self1, take_hits)
                | Some t \<Rightarrow>
                    Inr (self1\<lparr> take_hit_state := Some
                           (t\<lparr> stick_regions_during_hitlag :=
                                stick_regions_during_hitlag t
                                  @ [get_joystick_region h (joystick (pre player_frame))],
                              hitlag_frames := hitlag_frames t + 1 \<rparr>) \<rparr>,
                         take_hits))))"

definition take_hit_body ::
  "Common \<Rightarrow> bool \<Rightarrow> PortData list \<Rightarrow> PortData list \<Rightarrow> nat \<Rightarrow>
   StatsComputer \<times> TakeHitData list \<Rightarrow> py_exc + StatsComputer \<times> TakeHitData list" where
  "take_hit_body h knockback_check frames opponent_frames i s =
     (case py_index frames (int i - 1) of
        Inl e \<Rightarrow> Inl e
      | Inr prev_player_frame \<Rightarrow>
          (case py_index opponent_frames (int i) of
             Inl e \<Rightarrow> Inl e
           | Inr opponent_frame \<Rightarrow>
               take_hit_step h knockback_check i (frames ! i) prev_player_frame
                 opponent_frame s))"

definition take_hit_compute ::
  "Common \<Rightarrow> StatsComputer \<Rightarrow> PortData list \<Rightarrow> PortData list \<Rightarrow> TakeHitData list \<Rightarrow>
   py_exc + StatsComputer \<times> TakeHitData list" where
  "take_hit_compute h self frames opponent_frames take_hits =
     (if version_less (replay_version self) (2, 0, 0) then Inr (self, take_hits)
      else for_enumerate
             (take_hit_body h (\<not> version_less (replay_version self) (3, 5, 0)) frames
                opponent_frames)
             [0 ..< length frames] (self, take_hits))"

subsection \<open>l\_cancel\_compute\<close>

text \<open>The values passed as keyword arguments.\<close>

datatype py_value = PyInt int | PyBool bool | PyNone

definition kw_int :: "(string \<times> py_value) list \<Rightarrow> string \<Rightarrow> int" where
  "kw_int kw k = (case map_of kw k of Some (PyInt n) \<Rightarrow> n | _ \<Rightarrow> 0)"

definition kw_bool :: "(string \<times> py_value) list \<Rightarrow> string \<Rightarrow> bool" where
  "kw_bool kw k = (case map_of kw k of Some (PyBool b) \<Rightarrow> b | _ \<Rightarrow> False)"

definition kw_int_option :: "(string \<times> py_value) list \<Rightarrow> string \<Rightarrow> int option" where
  "kw_int_option kw k = (case map_of kw k of Some (PyInt n) \<Rightarrow> Some n | _ \<Rightarrow> None)"

text \<open>
  A call \<open>LCancelData(**kw)\<close>: the \<open>__init__\<close> generated by \<open>@dataclass\<close> takes one
  parameter per field and none has a default.
\<close>

definition LCancelData_call :: "(string \<times> py_value) list \<Rightarrow> py_exc + LCancelData" where
  "LCancelData_call kw =
     (if binds_keywords LCancelData_params LCancelData_params (map fst kw)
      then Inr \<lparr> LCancelData.frame_index = kw_int kw ''frame_index'',
                 LCancelData.stocks_remaining = kw_int kw ''stocks_remaining'',
                 LCancelData.l_cancel = kw_bool kw ''l_cancel'',
                 move = kw_int kw ''move'',
                 LCancelData.position = kw_int kw ''position'',
                 trigger_input_frame = kw_int_option kw ''trigger_input_frame'',
                 during_hitlag = kw_bool kw ''during_hitlag'',
                 fastfall = kw_bool kw ''fastfall'' \<rparr>
      else Inl TypeError)"

text \<open>
  The loop \<open>for j in range(1, 6)\<close> that looks for a press after the landing.
\<close>

fun l_cancel_late_loop ::
  "Common \<Rightarrow> PortData list \<Rightarrow> nat \<Rightarrow> nat list \<Rightarrow> int option \<Rightarrow> py_exc + int option" where
  "l_cancel_late_loop h frames i [] t = Inr t"
| "l_cancel_late_loop h frames i (j # js) t =
     (case py_index frames (int i + int j) of
        Inl e \<Rightarrow> Inl e
      | Inr later_frame \<Rightarrow>
          (case py_index frames (int i + int j - 1) of
             Inl e \<Rightarrow> Inl e
           | Inr before_frame \<Rightarrow>
               l_cancel_late_loop h frames i js
                 (if just_input_l_cancel h later_frame before_frame then Some (int j) else t)))"

text \<open>
  The value of \<open>trigger_input_frame\<close> that a landing at frame \<open>i\<close> passes to the record:
  the walrus assignment \<open>trigger_input_frame := trigger_input_frame - i\<close> with its test,
  then the scan for a late press.  \<open>None - i\<close> raises \<open>TypeError\<close>.
\<close>

definition l_cancel_resolve ::
  "Common \<Rightarrow> PortData list \<Rightarrow> nat \<Rightarrow> int option local_var \<Rightarrow> bool \<Rightarrow> py_exc + int option" where
  "l_cancel_resolve h frames i trigger dh =
     (case trigger of
        Unbound \<Rightarrow> Inl UnboundLocalError
      | Bound None \<Rightarrow> Inl TypeError
      | Bound (Some t) \<Rightarrow>
          (let t1 = t - int i;
               t2 = (if t1 > 15 then (if \<not> dh \<and> t1 < 25 then None else Some t1) else Some t1)
           in if \<not> (Post.l_cancel (post (frames ! i)) = SUCCESS) \<and> t2 \<noteq> None
              then l_cancel_late_loop h frames i [1 ..< 6] t2
              else Inr t2))"

text \<open>The keyword arguments of the call \<open>LCancelData(...)\<close> in the source.\<close>

definition l_cancel_keywords ::
  "Common \<Rightarrow> nat \<Rightarrow> nat \<Rightarrow> PortData \<Rightarrow> PortData \<Rightarrow> int option \<Rightarrow> bool \<Rightarrow>
   (string \<times> py_value) list" where
  "l_cancel_keywords h stg i player_frame prev_player_frame t dh =
     [(''frame_index'', PyInt (int i)),
      (''move'', PyInt (Post.state (post prev_player_frame))),
      (''l_cancel'', PyBool (Post.l_cancel (post player_frame) = SUCCESS)),
      (''trigger_input_frame'', (case t of None \<Rightarrow> PyNone | Some n \<Rightarrow> PyInt n)),
      (''position'', PyInt (get_ground h stg (last_ground_id (post player_frame)))),
      (''fast_fall'', PyBool (is_fastfalling h (flags (post prev_player_frame)))),
      (''during_hitlag'', PyBool dh)]"

text \<open>
  One iteration, on the locals \<open>trigger_input_frame\<close> and \<open>during_hitlag\<close> and the list
  \<open>player.stats.l_cancels\<close>, given the previous frame of the player.
\<close>

definition l_cancel_step ::
  "Common \<Rightarrow> nat \<Rightarrow> PortData list \<Rightarrow> nat \<Rightarrow> PortData \<Rightarrow>
   int option local_var \<times> bool \<times> LCancelData list \<Rightarrow>
   py_exc + int option local_var \<times> bool \<times> LCancelData list" where
  "l_cancel_step h stg frames i prev_player_frame s =
     (case s of (trigger0, dh0, l_cancels) \<Rightarrow>
      (let player_frame = frames ! i;
           pressed = just_input_l_cancel h player_frame prev_player_frame;
           trigger = (if pressed then Bound (Some (int i)) else trigger0);
           dh = (if pressed then is_in_hitlag h (flags (post player_frame)) else dh0)
       in if Post.l_cancel (post player_frame) = NOT_APPLICABLE then Inr (trigger, dh, l_cancels)
          else
            (case l_cancel_resolve h frames i trigger dh of
               Inl e \<Rightarrow> Inl e
             | Inr t \<Rightarrow>
                 (case LCancelData_call
                         (l_cancel_keywords h stg i player_frame prev_player_frame t dh) of
                    Inl e \<Rightarrow> Inl e
                  | Inr r \<Rightarrow> Inr (Bound t, dh, l_cancels @ [r])))))"

definition l_cancel_body ::
  "Common \<Rightarrow> nat \<Rightarrow> PortData list \<Rightarrow> nat \<Rightarrow>
   int option local_var \<times> bool \<times> LCancelData list \<Rightarrow>
   py_exc + int option local_var \<times> bool \<times> LCancelData list" where
  "l_cancel_body h stg frames i s =
     (case py_index frames (int i - 1) of
        Inl e \<Rightarrow> Inl e
      | Inr prev_player_frame \<Rightarrow> l_cancel_step h stg frames i prev_player_frame s)"

text \<open>\<open>LCancels._percentage\<close>: \<open>(success / len(self.data)) * 100\<close> on floats.\<close>

definition LCancels_percentage :: "Common \<Rightarrow> LCancels \<Rightarrow> LCancels" where
  "LCancels_percentage h l =
     (if length (data l) > 0
      then l\<lparr> percentage :=
             Some (float_mul h
                     (float_div h (real (length (filter LCancelData.l_cancel (data l))))
                        (real (length (data l))))
                     100) \<rparr>
      else l)"

definition l_cancel_compute ::
  "Common \<Rightarrow> StatsComputer \<Rightarrow> PortData list \<Rightarrow> LCancels \<Rightarrow> py_exc + LCancels" where
  "l_cancel_compute h self frames l_cancels =
     (if version_less (replay_version self) (2, 0, 0) then Inr l_cancels
      else
        (case for_enumerate (l_cancel_body h (stage self) frames) [0 ..< length frames]
                (Unbound, False, data l_cancels) of
           Inl e \<Rightarrow> Inl e
         | Inr (trigger, dh, recs) \<Rightarrow> Inr (LCancels_percentage h (l_cancels\<lparr> data := recs \<rparr>))))"

subsection \<open>Predicates on the output of l\_cancel\_compute\<close>



subsection \<open>Predicates on the output of dash\_compute\<close>

text \<open>
  \<open>has_dashdance k dashes\<close>: the list holds a dash record opened at frame \<open>k\<close> that is
  marked as part of a dashdance.
\<close>

definition has_dashdance :: "int \<Rightarrow> DashData list \<Rightarrow> bool" where
  "has_dashdance k dashes = (\<exists>d \<in> set dashes. DashData.frame_index d = k \<and> is_dashdance d)"

text \<open>
  The invariant of the frame loop after a dash at \<open>a\<close>, a turn and a dash at \<open>b\<close>:
  the record of \<open>a\<close> is in the list and marked, and the record of \<open>b\<close> is either in the
  list and marked, or still open in \<open>self.dash_state\<close>, marked, while the player is in
  the dash state at the frame \<open>i\<close> just handled.
\<close>

definition dashdance_inv :: "PortData list \<Rightarrow> nat \<Rightarrow> nat \<Rightarrow> nat \<Rightarrow> StatsComputer \<times> DashData list \<Rightarrow> bool" where
  "dashdance_inv frames a b i s =
     (has_dashdance (int a) (snd s)
      \<and> (has_dashdance (int b) (snd s)
         \<or> ((\<exists>d. dash_state (fst s) = Some d \<and> DashData.frame_index d = int b \<and> is_dashdance d)
            \<and> Post.state (post (frames ! i)) = ActionState_DASH)))"

section \<open>stats/combo\_computer.py: ComboComputer\<close>


text \<open>
  \<open>MoveLanded\<close> and \<open>ComboData\<close>.  A combo object is appended to \<open>player.combos\<close> when it
  is created and written to afterwards through \<open>self.combo_state.combo\<close>; a move object
  is appended to the \<open>moves\<close> of its combo and written to afterwards through
  \<open>self.combo_state.move\<close>.  So objects live in a store and are named by their address:
  \<open>moves\<close>, \<open>player.combos\<close> and the two fields of the combo state hold addresses.
\<close>

record MoveLanded =
  frame_index :: int
  move_id :: int
  hit_count :: int
  damage :: real
  opponent_position :: "Position option"

record ComboData =
  moves :: "nat list"
  did_kill :: bool
  death_direction :: "string option"
  player_stocks :: int
  opponent_stocks :: int
  did_end_game :: bool
  start_percent :: real
  current_percent :: real
  end_percent :: real
  start_frame :: int
  end_frame :: int




text \<open>
  A \<open>ComboComputer\<close>: the two stores, the fields of \<open>self.combo_state\<close> and the stage of
  the replay.
\<close>

record ComboComputer =
  combo_objects :: "ComboData list"
  move_objects :: "MoveLanded list"
  combo :: "nat option"
  move :: "nat option"
  reset_counter :: int
  last_hit_animation :: "int option"
  combo_stage :: nat


















text \<open>
  The invariant of the frame loop on the store of combos, the active combo and
  \<open>player.combos\<close>: every address is in the store; the active combo, when it is in
  \<open>player.combos\<close>, started at or before \<open>bound\<close> and has the end frame 0; every other
  combo in \<open>player.combos\<close> ends at or after its start.
\<close>

definition combo_frames_ok :: "int \<Rightarrow> ComboComputer \<times> nat list \<Rightarrow> bool" where
  "combo_frames_ok bound r =
     ((\<forall>c. combo (fst r) = Some c \<longrightarrow> c < length (combo_objects (fst r)))
      \<and> (\<forall>a \<in> set (snd r).
            a < length (combo_objects (fst r))
            \<and> (combo (fst r) = Some a
                 \<longrightarrow> ComboData.start_frame (combo_objects (fst r) ! a) \<le> bound
                     \<and> ComboData.end_frame (combo_objects (fst r) ! a) = 0)
            \<and> (combo (fst r) \<noteq> Some a
                 \<longrightarrow> ComboData.start_frame (combo_objects (fst r) ! a)
                       \<le> ComboData.end_frame (combo_objects (fst r) ! a))))"

section \<open>parse.py: the event-stream decoder\<close>

text \<open>
  A byte source with a read position.  \<open>seekable\<close> is what \<open>source.seekable()\<close> answers;
  it is \<open>None\<close> for an object with no such method, where the call raises
  \<open>AttributeError\<close>.  \<open>seek\<close> is how the source answers \<open>seek\<close> with a target outside
  its data: \<open>io.BytesIO\<close> moves a target before the start to 0 and accepts one past the
  end; a buffered file raises \<open>OSError\<close> for a target before the start and accepts one
  past the end; \<open>mmap\<close>, which \<open>_parse_open\<close> uses, raises \<open>ValueError\<close> for either;
  a source that cannot seek raises \<open>io.UnsupportedOperation\<close> for every call.
\<close>

type_synonym byte = "8 word"

datatype seek_kind = Seek_BytesIO | Seek_file | Seek_mmap | Seek_unsupported

record byte_stream =
  bytes :: "byte list"
  pos :: nat
  seekable :: "bool option"
  seek :: seek_kind

text \<open>\<open>stream.read(n)\<close>: up to \<open>n\<close> bytes from the position, which moves past them.\<close>

definition stream_read :: "nat \<Rightarrow> byte_stream \<Rightarrow> byte list \<times> byte_stream" where
  "stream_read n s =
     (take n (drop (pos s) (bytes s)),
      s\<lparr> pos := pos s + length (take n (drop (pos s) (bytes s))) \<rparr>)"

text \<open>\<open>stream.seek(skip, os.SEEK_CUR)\<close>, for each kind of source.\<close>

definition stream_seek_cur :: "int \<Rightarrow> byte_stream \<Rightarrow> py_exc + byte_stream" where
  "stream_seek_cur skip s =
     (let target = int (pos s) + skip in
      case seek s of
        Seek_BytesIO \<Rightarrow> Inr (s\<lparr> pos := nat (max 0 target) \<rparr>)
      | Seek_file \<Rightarrow> if target < 0 then Inl OSError else Inr (s\<lparr> pos := nat target \<rparr>)
      | Seek_mmap \<Rightarrow>
          if target < 0 \<or> int (length (bytes s)) < target then Inl ValueError
          else Inr (s\<lparr> pos := nat target \<rparr>)
      | Seek_unsupported \<Rightarrow> Inl UnsupportedOperation)"

text \<open>
  The exceptions of the decoder: a Python exception as raised, or the \<open>ParseError\<close> of
  \<open>parse.py\<close>.  \<open>ParseError(str(exc), filename, pos)\<close> keeps the exception \<open>exc\<close> whose text
  is its message.  An exception comes with the byte source as it stands when raised.
\<close>

datatype parse_exc =
    Raised py_exc
  | ParseError py_exc "string option" "nat option"

text \<open>
  Modelled from the spec: \<open>unpack_uint8\<close>, \<open>unpack_uint16\<close>, \<open>unpack_int32\<close> and
  \<open>expect_bytes\<close> of \<open>util.py\<close> are missing.  The integers are big-endian and a short
  read is a decoding failure; \<open>expect_bytes\<close> validates fixed bytes of the container.
\<close>

definition unpack_uint8 :: "byte list \<Rightarrow> py_exc + nat" where
  "unpack_uint8 bs = (case bs of [b] \<Rightarrow> Inr (unat b) | _ \<Rightarrow> Inl StructError)"

definition unpack_uint16 :: "byte list \<Rightarrow> py_exc + nat" where
  "unpack_uint16 bs =
     (case bs of [b1, b0] \<Rightarrow> Inr (unat b1 * 256 + unat b0) | _ \<Rightarrow> Inl StructError)"

definition unpack_int32 :: "byte list \<Rightarrow> py_exc + int" where
  "unpack_int32 bs =
     (case bs of
        [b3, b2, b1, b0] \<Rightarrow>
          (let n = ((int (unat b3) * 256 + int (unat b2)) * 256 + int (unat b1)) * 256
                   + int (unat b0)
           in Inr (if n \<ge> 2 ^ 31 then n - 2 ^ 32 else n))
      | _ \<Rightarrow> Inl StructError)"

definition expect_bytes :: "byte list \<Rightarrow> byte_stream \<Rightarrow> parse_exc \<times> byte_stream + byte_stream" where
  "expect_bytes expected s =
     (case stream_read (length expected) s of
        (actual, s') \<Rightarrow> if actual = expected then Inr s' else Inl (Raised ValueError, s'))"

text \<open>
  The event types, and what an event decodes to.  \<open>Frame.Event\<close> holds the id read from
  the head of the payload, its type and the rest of the payload as \<open>data\<close>.  The decoded
  objects of \<open>event.py\<close> (\<open>Start\<close>, \<open>End\<close>, items, frame bookends, the metadata) are
  values of a type \<open>'v\<close>.
\<close>

datatype EventType =
    EVENT_PAYLOADS | GAME_START | FRAME_PRE | FRAME_POST | GAME_END
  | FRAME_START | ITEM | FRAME_END

datatype FrameEventType = Type_START | Type_PRE | Type_POST | Type_ITEM | Type_END

record EventId =
  frame :: int
  port :: nat
  is_follower :: bool

datatype 'v event =
    Start 'v
  | End 'v
  | FrameEvent EventId FrameEventType "byte list"

text \<open>
  The frame under assembly: \<open>Frame\<close>, \<open>Frame.Port\<close> and \<open>Frame.Port.Data\<close> with the
  attributes \<open>parse.py\<close> assigns (\<open>pre_data\<close> and \<open>post_data\<close> are \<open>_pre\<close> and \<open>_post\<close>,
  \<open>frame_start\<close> and \<open>frame_end\<close> are \<open>start\<close> and \<open>end\<close>).
\<close>

record RawData =
  pre_data :: "byte list option"
  post_data :: "byte list option"

record Port =
  leader :: RawData
  follower :: "RawData option"

record 'v Frame =
  index :: int
  ports :: "Port option list"
  items :: "'v list"
  frame_start :: "'v option"
  frame_end :: "'v option"

text \<open>
  What \<open>parse.py\<close> takes from \<open>event.py\<close>, \<open>metadata.py\<close> and \<open>ubjson\<close>: the enum
  \<open>EventType\<close> (\<open>EventType_of code\<close> is \<open>EventType(code)\<close>, \<open>None\<close> where that raises
  \<open>ValueError\<close>), the constructors and the payload decoders.  A payload decoder that
  fails reports its exception and how far into the payload it had read.  They are
  parameters: the fields of \<open>Decoders\<close>.
\<close>

record 'v Decoders =
  EventType_of :: "nat \<Rightarrow> EventType option"
  EventType_value :: "EventType \<Rightarrow> nat"
  Start_parse :: "byte list \<Rightarrow> py_exc \<times> nat + 'v"
  End_parse :: "byte list \<Rightarrow> py_exc \<times> nat + 'v"
  Id_parse :: "byte list \<Rightarrow> py_exc \<times> nat + EventId \<times> byte list"
  PortId_parse :: "byte list \<Rightarrow> py_exc \<times> nat + EventId \<times> byte list"
  Item_parse :: "byte list \<Rightarrow> py_exc + 'v"
  FrameStart_parse :: "byte list \<Rightarrow> py_exc + 'v"
  FrameEnd_parse :: "byte list \<Rightarrow> py_exc + 'v"
  Frame_init :: "int \<Rightarrow> 'v Frame"
  Port_init :: Port
  Data_init :: RawData
  Frame_finalize :: "'v Frame \<Rightarrow> 'v Frame"
  ubjson_load :: "byte_stream \<Rightarrow> py_exc \<times> byte_stream + 'v \<times> byte_stream"
  Metadata_parse :: "'v \<Rightarrow> py_exc + 'v"

text \<open>
  The caller's handlers are invoked in arrival order: the decoder's output is the list of
  the calls it made.  All handlers are taken to be supplied.
\<close>

datatype 'v handled =
    Handled_Start 'v
  | Handled_Frame "'v Frame"
  | Handled_End 'v
  | Handled_dict 'v
  | Handled_Metadata 'v

subsection \<open>\_parse\_event\_payloads\<close>

fun payload_sizes_loop ::
  "nat \<Rightarrow> byte_stream \<Rightarrow> (nat \<rightharpoonup> nat) \<Rightarrow> parse_exc \<times> byte_stream + (nat \<rightharpoonup> nat) \<times> byte_stream" where
  "payload_sizes_loop 0 s sizes = Inr (sizes, s)"
| "payload_sizes_loop (Suc n) s sizes =
     (case stream_read 1 s of
        (b, s1) \<Rightarrow>
          (case unpack_uint8 b of
             Inl e \<Rightarrow> Inl (Raised e, s1)
           | Inr code \<Rightarrow>
               (case stream_read 2 s1 of
                  (bs, s2) \<Rightarrow>
                    (case unpack_uint16 bs of
                       Inl e \<Rightarrow> Inl (Raised e, s2)
                     | Inr sz \<Rightarrow> payload_sizes_loop n s2 (sizes(code \<mapsto> sz))))))"

definition parse_event_payloads ::
  "'v Decoders \<Rightarrow> byte_stream \<Rightarrow> parse_exc \<times> byte_stream + (int \<times> (nat \<rightharpoonup> nat)) \<times> byte_stream" where
  "parse_event_payloads P s =
     (case stream_read 1 s of
        (b, s1) \<Rightarrow>
          (case unpack_uint8 b of
             Inl e \<Rightarrow> Inl (Raised e, s1)
           | Inr code \<Rightarrow>
               (case stream_read 1 s1 of
                  (b', s2) \<Rightarrow>
                    (case unpack_uint8 b' of
                       Inl e \<Rightarrow> Inl (Raised e, s2)
                     | Inr size0 \<Rightarrow>
                         if EventType_of P code \<noteq> Some EVENT_PAYLOADS
                         then Inl (Raised ValueError, s2)
                         else
                           (let this_size = int size0 - 1;
                                command_count = this_size div 3
                            in if command_count * 3 \<noteq> this_size then Inl (Raised ValueError, s2)
                               else
                                 (case payload_sizes_loop (nat command_count) s2 Map.empty of
                                    Inl err \<Rightarrow> Inl err
                                  | Inr (sizes, s3) \<Rightarrow> Inr ((2 + this_size, sizes), s3)))))))"

subsection \<open>\_parse\_event\<close>

text \<open>\<open>EVENT_PARSE_DISPATCH\<close>, keyed by the event type.\<close>

definition EVENT_PARSE_DISPATCH ::
  "'v Decoders \<Rightarrow> EventType \<Rightarrow> (byte list \<Rightarrow> py_exc \<times> nat + 'v event) option" where
  "EVENT_PARSE_DISPATCH P t =
     (let frame_event = (\<lambda>id_parse ty payload.
            case id_parse payload of
              Inl err \<Rightarrow> Inl err
            | Inr (eid, rest) \<Rightarrow> Inr (FrameEvent eid ty rest))
      in case t of
           GAME_START \<Rightarrow>
             Some (\<lambda>payload. case Start_parse P payload of Inl err \<Rightarrow> Inl err | Inr v \<Rightarrow> Inr (Start v))
         | FRAME_START \<Rightarrow> Some (frame_event (Id_parse P) Type_START)
         | FRAME_PRE \<Rightarrow> Some (frame_event (PortId_parse P) Type_PRE)
         | FRAME_POST \<Rightarrow> Some (frame_event (PortId_parse P) Type_POST)
         | ITEM \<Rightarrow> Some (frame_event (Id_parse P) Type_ITEM)
         | FRAME_END \<Rightarrow> Some (frame_event (Id_parse P) Type_END)
         | GAME_END \<Rightarrow>
             Some (\<lambda>payload. case End_parse P payload of Inl err \<Rightarrow> Inl err | Inr v \<Rightarrow> Inr (End v))
         | EVENT_PAYLOADS \<Rightarrow> None)"

text \<open>
  \<open>_parse_event\<close>.  A code that is not a key of \<open>payload_sizes\<close> raises \<open>KeyError\<close>, which
  the source catches and logs; it then goes on to \<open>event_stream.read(size)\<close> with \<open>size\<close>
  never assigned, which raises \<open>UnboundLocalError\<close> outside the second \<open>try\<close>.  An
  exception of a payload decoder is raised again as a \<open>ParseError\<close> with the position in
  the payload.
\<close>

definition parse_event ::
  "'v Decoders \<Rightarrow> byte_stream \<Rightarrow> (nat \<rightharpoonup> nat) \<Rightarrow>
   parse_exc \<times> byte_stream + (nat \<times> 'v event option \<times> nat) \<times> byte_stream" where
  "parse_event P event_stream payload_sizes =
     (case stream_read 1 event_stream of
        (b, s1) \<Rightarrow>
          (case unpack_uint8 b of
             Inl e \<Rightarrow> Inl (Raised e, s1)
           | Inr code \<Rightarrow>
               (case payload_sizes code of
                  None \<Rightarrow> Inl (Raised UnboundLocalError, s1)
                | Some sz \<Rightarrow>
                    (case stream_read sz s1 of
                       (payload, s2) \<Rightarrow>
                         (case (case EventType_of P code of
                                  None \<Rightarrow> None
                                | Some t \<Rightarrow> EVENT_PARSE_DISPATCH P t) of
                            None \<Rightarrow> Inr ((1 + sz, None, code), s2)
                          | Some decoder \<Rightarrow>
                              (case decoder payload of
                                 Inl (exc, tell) \<Rightarrow> Inl (ParseError exc None (Some tell), s2)
                               | Inr ev \<Rightarrow> Inr ((1 + sz, Some ev, code), s2)))))))"

subsection \<open>The handlers of BUILD\_GAME\_DISPATCH\<close>

text \<open>
  The head shared by the five frame handlers: a frame under assembly with another index
  is finalized and handed to the \<open>Frame\<close> handler, and a new frame is opened when none
  is under assembly.
\<close>

definition open_frame ::
  "'v Decoders \<Rightarrow> 'v Frame option \<Rightarrow> int \<Rightarrow> 'v handled list \<Rightarrow> 'v Frame \<times> 'v handled list" where
  "open_frame P current_frame id_frame out =
     (case current_frame of
        None \<Rightarrow> (Frame_init P id_frame, out)
      | Some f \<Rightarrow>
          if index f \<noteq> id_frame
          then (Frame_init P id_frame, out @ [Handled_Frame (Frame_finalize P f)])
          else (f, out))"

text \<open>
  The port lookup of \<open>_pre_frame\<close> and \<open>_post_frame\<close>, with the assignment \<open>assign\<close> to the
  leader's or the follower's data.
\<close>

definition port_data_update ::
  "'v Decoders \<Rightarrow> (RawData \<Rightarrow> RawData) \<Rightarrow> EventId \<Rightarrow> 'v Frame \<Rightarrow> py_exc + 'v Frame" where
  "port_data_update P assign eid f =
     (case py_index (ports f) (int (port eid)) of
        Inl e \<Rightarrow> Inl e
      | Inr slot \<Rightarrow>
          (let prt = (case slot of None \<Rightarrow> Port_init P | Some q \<Rightarrow> q);
               prt' = (if \<not> is_follower eid then prt\<lparr> leader := assign (leader prt) \<rparr>
                       else prt\<lparr> follower :=
                              Some (assign (case follower prt of
                                              None \<Rightarrow> Data_init P | Some d \<Rightarrow> d)) \<rparr>)
           in Inr (f\<lparr> ports := (ports f)[port eid := Some prt'] \<rparr>)))"

text \<open>
  The five frame handlers.  Each is called with the event just decoded; an event that is
  not a \<open>Frame.Event\<close> has no \<open>id\<close>, and reading it raises \<open>AttributeError\<close>.
\<close>

definition frame_handler ::
  "'v Decoders \<Rightarrow> ('v Frame \<Rightarrow> EventId \<Rightarrow> byte list \<Rightarrow> py_exc + 'v Frame) \<Rightarrow>
   'v Frame option \<Rightarrow> 'v event option \<Rightarrow> 'v handled list \<Rightarrow>
   py_exc + 'v Frame option \<times> 'v handled list" where
  "frame_handler P fill current_frame ev out =
     (case ev of
        Some (FrameEvent eid ty payload) \<Rightarrow>
          (case open_frame P current_frame (frame eid) out of
             (f, out') \<Rightarrow>
               (case fill f eid payload of
                  Inl e \<Rightarrow> Inl e
                | Inr f' \<Rightarrow> Inr (Some f', out')))
      | _ \<Rightarrow> Inl AttributeError)"

definition pre_frame_handler ::
  "'v Decoders \<Rightarrow> 'v Frame option \<Rightarrow> 'v event option \<Rightarrow> 'v handled list \<Rightarrow>
   py_exc + 'v Frame option \<times> 'v handled list" where
  "pre_frame_handler P =
     frame_handler P (\<lambda>f eid payload. port_data_update P (\<lambda>d. d\<lparr> pre_data := Some payload \<rparr>) eid f)"

definition post_frame_handler ::
  "'v Decoders \<Rightarrow> 'v Frame option \<Rightarrow> 'v event option \<Rightarrow> 'v handled list \<Rightarrow>
   py_exc + 'v Frame option \<times> 'v handled list" where
  "post_frame_handler P =
     frame_handler P (\<lambda>f eid payload. port_data_update P (\<lambda>d. d\<lparr> post_data := Some payload \<rparr>) eid f)"

definition item_frame_handler ::
  "'v Decoders \<Rightarrow> 'v Frame option \<Rightarrow> 'v event option \<Rightarrow> 'v handled list \<Rightarrow>
   py_exc + 'v Frame option \<times> 'v handled list" where
  "item_frame_handler P =
     frame_handler P (\<lambda>f eid payload.
       case Item_parse P payload of Inl e \<Rightarrow> Inl e | Inr v \<Rightarrow> Inr (f\<lparr> items := items f @ [v] \<rparr>))"

definition start_frame_handler ::
  "'v Decoders \<Rightarrow> 'v Frame option \<Rightarrow> 'v event option \<Rightarrow> 'v handled list \<Rightarrow>
   py_exc + 'v Frame option \<times> 'v handled list" where
  "start_frame_handler P =
     frame_handler P (\<lambda>f eid payload.
       case FrameStart_parse P payload of Inl e \<Rightarrow> Inl e | Inr v \<Rightarrow> Inr (f\<lparr> frame_start := Some v \<rparr>))"

definition end_frame_handler ::
  "'v Decoders \<Rightarrow> 'v Frame option \<Rightarrow> 'v event option \<Rightarrow> 'v handled list \<Rightarrow>
   py_exc + 'v Frame option \<times> 'v handled list" where
  "end_frame_handler P =
     frame_handler P (\<lambda>f eid payload.
       case FrameEnd_parse P payload of Inl e \<Rightarrow> Inl e | Inr v \<Rightarrow> Inr (f\<lparr> frame_end := Some v \<rparr>))"

text \<open>
  \<open>_game_start\<close>: the \<open>Start\<close> handler, then the jump over the frame data when frames are
  skipped and the length is known.  The assignment \<open>bytes_read += skip\<close> changes a local
  of \<open>_game_start\<close> only.
\<close>

definition game_start_handler ::
  "'v Decoders \<Rightarrow> 'v Frame option \<Rightarrow> 'v event option \<Rightarrow> bool \<Rightarrow> int \<Rightarrow> int \<Rightarrow>
   (nat \<rightharpoonup> nat) \<Rightarrow> byte_stream \<Rightarrow> 'v handled list \<Rightarrow>
   py_exc + 'v Frame option \<times> byte_stream \<times> 'v handled list" where
  "game_start_handler P current_frame ev skip_frames total_size bytes_read payload_sizes s out =
     (let out' = out @ (case ev of Some (Start v) \<Rightarrow> [Handled_Start v] | _ \<Rightarrow> []) in
      if skip_frames \<and> total_size \<noteq> 0 then
        (case payload_sizes (EventType_value P GAME_END) of
           None \<Rightarrow> Inl KeyError
         | Some end_size \<Rightarrow>
             (case stream_seek_cur (total_size - bytes_read - int end_size - 1) s of
                Inl e \<Rightarrow> Inl e
              | Inr s' \<Rightarrow> Inr (current_frame, s', out')))
      else Inr (current_frame, s, out'))"

definition game_end_handler ::
  "'v Frame option \<Rightarrow> 'v event option \<Rightarrow> 'v handled list \<Rightarrow> 'v Frame option \<times> 'v handled list" where
  "game_end_handler current_frame ev out =
     (current_frame, out @ (case ev of Some (End v) \<Rightarrow> [Handled_End v] | _ \<Rightarrow> []))"

text \<open>
  \<open>BUILD_GAME_DISPATCH.get(event_code, lambda *_: None)(...)\<close>: a code with no handler
  gets the default, which returns \<open>None\<close> as the new \<open>current_frame\<close>.
\<close>

definition build_game ::
  "'v Decoders \<Rightarrow> nat \<Rightarrow> 'v Frame option \<Rightarrow> 'v event option \<Rightarrow> bool \<Rightarrow> int \<Rightarrow> int \<Rightarrow>
   (nat \<rightharpoonup> nat) \<Rightarrow> byte_stream \<Rightarrow> 'v handled list \<Rightarrow>
   py_exc + 'v Frame option \<times> byte_stream \<times> 'v handled list" where
  "build_game P event_code current_frame ev skip_frames total_size bytes_read payload_sizes s out =
     (let with_stream = (\<lambda>r. case r of Inl e \<Rightarrow> Inl e | Inr (cf, out') \<Rightarrow> Inr (cf, s, out')) in
      case EventType_of P event_code of
        None \<Rightarrow> Inr (None, s, out)
      | Some t \<Rightarrow>
          (case t of
             GAME_START \<Rightarrow>
               game_start_handler P current_frame ev skip_frames total_size bytes_read payload_sizes s out
           | FRAME_START \<Rightarrow> with_stream (start_frame_handler P current_frame ev out)
           | FRAME_PRE \<Rightarrow> with_stream (pre_frame_handler P current_frame ev out)
           | FRAME_POST \<Rightarrow> with_stream (post_frame_handler P current_frame ev out)
           | ITEM \<Rightarrow> with_stream (item_frame_handler P current_frame ev out)
           | FRAME_END \<Rightarrow> with_stream (end_frame_handler P current_frame ev out)
           | GAME_END \<Rightarrow> with_stream (Inr (game_end_handler current_frame ev out))
           | EVENT_PAYLOADS \<Rightarrow> Inr (None, s, out)))"

subsection \<open>\_parse\_events\<close>

text \<open>The variables of the decoding loop.\<close>

record 'v loop_state =
  stream :: byte_stream
  bytes_read :: int
  event :: "'v event option"
  current_frame :: "'v Frame option"
  handled :: "'v handled list"

definition is_End :: "'v event option \<Rightarrow> bool" where
  "is_End ev = (case ev of Some (End v) \<Rightarrow> True | _ \<Rightarrow> False)"

text \<open>The condition of the \<open>while\<close> loop.\<close>

definition loop_running :: "int \<Rightarrow> 'v loop_state \<Rightarrow> bool" where
  "loop_running total_size st =
     ((total_size = 0 \<or> bytes_read st < total_size) \<and> \<not> is_End (event st))"

text \<open>The body of the \<open>while\<close> loop.\<close>

definition parse_events_body ::
  "'v Decoders \<Rightarrow> (nat \<rightharpoonup> nat) \<Rightarrow> int \<Rightarrow> bool \<Rightarrow> 'v loop_state \<Rightarrow>
   parse_exc \<times> byte_stream + 'v loop_state" where
  "parse_events_body P payload_sizes total_size skip_frames st =
     (case parse_event P (stream st) payload_sizes of
        Inl err \<Rightarrow> Inl err
      | Inr ((b, ev, event_code), s1) \<Rightarrow>
          (case build_game P event_code (current_frame st) ev skip_frames total_size
                  (bytes_read st + int b) payload_sizes s1 (handled st) of
             Inl e \<Rightarrow> Inl (Raised e, s1)
           | Inr (cf, s2, out) \<Rightarrow>
               Inr (st\<lparr> stream := s2, bytes_read := bytes_read st + int b, event := ev,
                        current_frame := cf, handled := out \<rparr>)))"

text \<open>
  The \<open>while\<close> loop ends on every input: an iteration that does not raise has read at
  least the byte of the event code, so with an unknown length the rest of the stream
  shrinks, and with a known length \<open>bytes_read\<close> grows towards it.
\<close>

lemma stream_read_bytes: "stream_read n s = (bs, s') \<Longrightarrow> bytes s' = bytes s"
  by (auto simp: stream_read_def)

lemma stream_read_one:
  assumes "stream_read 1 s = (bs, s1)" "unpack_uint8 bs = Inr code"
  shows "pos s < length (bytes s) \<and> pos s1 = Suc (pos s) \<and> bytes s1 = bytes s
         \<and> bs = [bytes s ! pos s]"
proof -
  from assms(2) obtain b where b: "bs = [b]"
    by (auto simp: unpack_uint8_def split: list.splits)
  with assms(1) have t: "take 1 (drop (pos s) (bytes s)) = [b]" by (simp add: stream_read_def)
  have lt: "pos s < length (bytes s)"
  proof (rule ccontr)
    assume "\<not> pos s < length (bytes s)"
    then have "drop (pos s) (bytes s) = []" by simp
    with t show False by simp
  qed
  then have "drop (pos s) (bytes s) = bytes s ! pos s # drop (Suc (pos s)) (bytes s)"
    by (simp add: Cons_nth_drop_Suc)
  then have "b = bytes s ! pos s" using t by simp
  then show ?thesis using assms(1) b lt by (auto simp: stream_read_def)
qed

lemma stream_read_pos:
  assumes "stream_read n s = (bs, s')" "pos s \<le> length (bytes s)"
  shows "pos s \<le> pos s' \<and> pos s' \<le> length (bytes s) \<and> bytes s' = bytes s"
  using assms by (auto simp: stream_read_def)

lemma parse_event_progress:
  assumes "parse_event P s ps = Inr ((b, ev, code), s1)"
  shows "1 \<le> b \<and> bytes s1 = bytes s \<and> pos s < length (bytes s)
         \<and> pos s < pos s1 \<and> pos s1 \<le> length (bytes s)"
proof -
  obtain bs sa where r1: "stream_read 1 s = (bs, sa)" by (cases "stream_read 1 s")
  with assms obtain c where c: "unpack_uint8 bs = Inr c"
    by (auto simp: parse_event_def split: sum.splits)
  with assms r1 obtain sz where sz: "ps c = Some sz"
    by (auto simp: parse_event_def split: option.splits)
  obtain pl sb where r2: "stream_read sz sa = (pl, sb)" by (cases "stream_read sz sa")
  from assms r1 c sz r2 have res: "b = 1 + sz" "s1 = sb"
    by (auto simp: parse_event_def split: option.splits sum.splits prod.splits)
  note one = stream_read_one[OF r1 c]
  then have "pos sa \<le> length (bytes sa)" by simp
  from stream_read_pos[OF r2 this] one res show ?thesis by simp
qed

lemma build_game_stream:
  assumes "build_game P code cf ev skip 0 br ps s out = Inr (cf', s', out')"
  shows "s' = s"
  using assms
  by (auto simp: build_game_def game_start_handler_def game_end_handler_def Let_def
      split: option.splits EventType.splits sum.splits prod.splits)

lemma parse_events_body_decreases:
  assumes "loop_running total_size st"
    "parse_events_body P ps total_size skip st = Inr st'"
  shows "(if total_size = 0 then length (bytes (stream st')) - pos (stream st')
          else nat (total_size - bytes_read st'))
       < (if total_size = 0 then length (bytes (stream st)) - pos (stream st)
          else nat (total_size - bytes_read st))"
proof -
  from assms(2) obtain b ev code s1 cf s2 out where
    pe: "parse_event P (stream st) ps = Inr ((b, ev, code), s1)" and
    bg: "build_game P code (current_frame st) ev skip total_size (bytes_read st + int b) ps s1
           (handled st) = Inr (cf, s2, out)" and
    st': "st' = st\<lparr> stream := s2, bytes_read := bytes_read st + int b, event := ev,
                   current_frame := cf, handled := out \<rparr>"
    by (auto simp: parse_events_body_def split: sum.splits prod.splits)
  note pr = parse_event_progress[OF pe]
  show ?thesis
  proof (cases "total_size = 0")
    case True
    then have "s2 = s1" using bg build_game_stream by blast
    then show ?thesis using True pr st' by (simp add: diff_less_mono2)
  next
    case False
    then have "bytes_read st < total_size" using assms(1) by (simp add: loop_running_def)
    then show ?thesis using False pr st' by simp
  qed
qed

text \<open>The \<open>while\<close> loop of \<open>_parse_events\<close>.\<close>

function parse_events_loop ::
  "'v Decoders \<Rightarrow> (nat \<rightharpoonup> nat) \<Rightarrow> int \<Rightarrow> bool \<Rightarrow> 'v loop_state \<Rightarrow>
   parse_exc \<times> byte_stream + 'v loop_state" where
  "parse_events_loop P payload_sizes total_size skip_frames st =
     (if loop_running total_size st then
        (case parse_events_body P payload_sizes total_size skip_frames st of
           Inl err \<Rightarrow> Inl err
         | Inr st' \<Rightarrow> parse_events_loop P payload_sizes total_size skip_frames st')
      else Inr st)"
  by pat_completeness auto
termination
  by (relation "measure (\<lambda>(P, ps, total_size, skip, st).
        if total_size = 0 then length (bytes (stream st)) - pos (stream st)
        else nat (total_size - bytes_read st))")
     (simp_all add: parse_events_body_decreases)


text \<open>
  The states the loop passes through: \<open>loop_reaches \<dots> st st'\<close> holds when the loop,
  started in \<open>st\<close>, has the variables \<open>st'\<close> after some number of iterations, none of which
  raised.
\<close>

declare parse_events_loop.simps [simp del]

inductive loop_reaches ::
  "'v Decoders \<Rightarrow> (nat \<rightharpoonup> nat) \<Rightarrow> int \<Rightarrow> bool \<Rightarrow> 'v loop_state \<Rightarrow> 'v loop_state \<Rightarrow> bool"
  for P payload_sizes total_size skip_frames where
    reaches_start: "loop_reaches P payload_sizes total_size skip_frames st st"
  | reaches_next:
      "loop_reaches P payload_sizes total_size skip_frames st st' \<Longrightarrow>
       loop_running total_size st' \<Longrightarrow>
       parse_events_body P payload_sizes total_size skip_frames st' = Inr st'' \<Longrightarrow>
       loop_reaches P payload_sizes total_size skip_frames st st''"

text \<open>
  \<open>_parse_events\<close>: the loop from the initial variables, then the frame still under
  assembly is finalized and handed to the \<open>Frame\<close> handler.
\<close>

definition parse_events ::
  "'v Decoders \<Rightarrow> byte_stream \<Rightarrow> (nat \<rightharpoonup> nat) \<Rightarrow> int \<Rightarrow> bool \<Rightarrow>
   parse_exc \<times> byte_stream + 'v loop_state" where
  "parse_events P s payload_sizes total_size skip_frames =
     (case parse_events_loop P payload_sizes total_size skip_frames
             \<lparr> stream = s, bytes_read = 0, event = None, current_frame = None, handled = [] \<rparr> of
        Inl err \<Rightarrow> Inl err
      | Inr st \<Rightarrow>
          (case current_frame st of
             None \<Rightarrow> Inr st
           | Some f \<Rightarrow> Inr (st\<lparr> handled := handled st @ [Handled_Frame (Frame_finalize P f)] \<rparr>)))"

subsection \<open>\_parse and \_parse\_try\<close>

text \<open>
  The fixed bytes of the container: \<open>b"{U\x03raw[$U#l"\<close>, \<open>b"U\x08metadata"\<close> and
  \<open>b"}"\<close>.
\<close>

definition raw_preamble :: "byte list" where
  "raw_preamble = [0x7B, 0x55, 0x03, 0x72, 0x61, 0x77, 0x5B, 0x24, 0x55, 0x23, 0x6C]"

definition metadata_key :: "byte list" where
  "metadata_key = [0x55, 0x08, 0x6D, 0x65, 0x74, 0x61, 0x64, 0x61, 0x74, 0x61]"

definition closing_brace :: "byte list" where
  "closing_brace = [0x7D]"

text \<open>
  \<open>_parse\<close>, up to the call of \<open>_parse_events\<close>.  \<open>read_lengths\<close> reads the preamble,
  the announced length of the blob and the table of payload sizes; it yields the
  announced length, the number of bytes the table took and the table.
  \<open>events_length\<close> is the statement \<open>if length != 0: length -= bytes_read\<close>, and
  \<open>parse_header\<close> yields the length handed to \<open>_parse_events\<close> and the table.
\<close>

definition read_lengths ::
  "'v Decoders \<Rightarrow> byte_stream \<Rightarrow>
   parse_exc \<times> byte_stream + (int \<times> int \<times> (nat \<rightharpoonup> nat)) \<times> byte_stream" where
  "read_lengths P s =
     (case expect_bytes raw_preamble s of
        Inl err \<Rightarrow> Inl err
      | Inr s1 \<Rightarrow>
          (case stream_read 4 s1 of
             (bs, s2) \<Rightarrow>
               (case unpack_int32 bs of
                  Inl e \<Rightarrow> Inl (Raised e, s2)
                | Inr len \<Rightarrow>
                    (case parse_event_payloads P s2 of
                       Inl err \<Rightarrow> Inl err
                     | Inr ((n, payload_sizes), s3) \<Rightarrow> Inr ((len, n, payload_sizes), s3)))))"

definition events_length :: "int \<Rightarrow> int \<Rightarrow> int" where
  "events_length len table_bytes = (if len \<noteq> 0 then len - table_bytes else len)"

definition parse_header ::
  "'v Decoders \<Rightarrow> byte_stream \<Rightarrow> parse_exc \<times> byte_stream + (int \<times> (nat \<rightharpoonup> nat)) \<times> byte_stream" where
  "parse_header P s =
     (case read_lengths P s of
        Inl err \<Rightarrow> Inl err
      | Inr ((len, table_bytes, payload_sizes), s3) \<Rightarrow>
          Inr ((events_length len table_bytes, payload_sizes), s3))"

text \<open>\<open>_parse\<close>, after the call of \<open>_parse_events\<close>: the metadata and the terminator.\<close>

definition parse_trailer ::
  "'v Decoders \<Rightarrow> 'v loop_state \<Rightarrow> parse_exc \<times> byte_stream + 'v handled list" where
  "parse_trailer P st =
     (case expect_bytes metadata_key (stream st) of
        Inl err \<Rightarrow> Inl err
      | Inr s1 \<Rightarrow>
          (case ubjson_load P s1 of
             Inl (e, s2) \<Rightarrow> Inl (Raised e, s2)
           | Inr (json, s2) \<Rightarrow>
               (case Metadata_parse P json of
                  Inl e \<Rightarrow> Inl (Raised e, s2)
                | Inr metadata \<Rightarrow>
                    (case expect_bytes closing_brace s2 of
                       Inl err \<Rightarrow> Inl err
                     | Inr s3 \<Rightarrow>
                         Inr (handled st @ [Handled_dict json, Handled_Metadata metadata])))))"

definition parse ::
  "'v Decoders \<Rightarrow> byte_stream \<Rightarrow> bool \<Rightarrow> parse_exc \<times> byte_stream + 'v handled list" where
  "parse P source skip_frames =
     (case parse_header P source of
        Inl err \<Rightarrow> Inl err
      | Inr ((len, payload_sizes), s) \<Rightarrow>
          (case parse_events P s payload_sizes len skip_frames of
             Inl err \<Rightarrow> Inl err
           | Inr st \<Rightarrow> parse_trailer P st))"

text \<open>
  The \<open>except\<close> clause of \<open>_parse_try\<close>, for an exception raised while the source stands
  at \<open>source\<close>: anything but a \<open>ParseError\<close> is replaced by a \<open>ParseError\<close> with its text
  and no position; the file name is set; a position that is missing (or zero) is taken
  from \<open>source.tell()\<close> when \<open>source.seekable()\<close> answers true, and left as it is when it
  answers false or the source has no such method.
\<close>

definition wrap_exception :: "parse_exc \<Rightarrow> byte_stream \<Rightarrow> string option \<Rightarrow> parse_exc" where
  "wrap_exception exc source path =
     (case (case exc of ParseError cause fn p \<Rightarrow> (cause, p) | Raised e \<Rightarrow> (e, None)) of
        (cause, p) \<Rightarrow>
          ParseError cause path
            (if p = None \<or> p = Some 0
             then (case seekable source of Some True \<Rightarrow> Some (pos source) | _ \<Rightarrow> p)
             else p))"

definition parse_try ::
  "'v Decoders \<Rightarrow> byte_stream \<Rightarrow> bool \<Rightarrow> string option \<Rightarrow> parse_exc + 'v handled list" where
  "parse_try P source skip_frames path =
     (case parse P source skip_frames of
        Inl (exc, source') \<Rightarrow> Inl (wrap_exception exc source' path)
      | Inr out \<Rightarrow> Inr out)"

section \<open>Concrete inputs\<close>

text \<open>
  A frame of a player standing at the origin in a given action state, with no input held,
  four stocks and no damage.  \<open>dashdance_frames\<close> is the scenario of the specification:
  dash entered at frame 5, turn at frame 9, dash entered at frame 10 and left at frame 11
  (14 is the action state \<open>WAIT\<close>).
\<close>

definition origin :: Position where
  "origin = \<lparr> x = 0, y = 0 \<rparr>"

definition frame_in_state :: "int \<Rightarrow> PortData" where
  "frame_in_state st =
     \<lparr> pre = \<lparr> joystick = origin, cstick = origin, physical_pressed = [] \<rparr>,
       post = \<lparr> Post.state = st, state_age = 0, Post.percent = 0, Post.stocks_remaining = 4,
                Post.position = origin, flags = 0, facing_direction = RIGHT,
                Post.l_cancel = NOT_APPLICABLE, most_recent_hit = 0, is_airborne = False,
                last_ground_id = 0, knockback_speed = origin \<rparr> \<rparr>"

text \<open>
  An instance of the helpers of \<open>stats/common.py\<close> for running the classifiers on
  concrete frames: the action-state ranges are those of \<open>ActionRange\<close> in
  \<open>enums/state.py\<close>; \<open>flags\<close> is read as state bit field 2 (fast fall is bit 8, hitlag
  bit 32); a press of L, R or Z counts as an L-cancel input on the frame it starts;
  the regions are numbered clockwise from \<open>UP = 0\<close> with the dead zone at \<open>-1\<close>.  The
  angle and velocity functions stand in for the trigonometry of the source:
  \<open>get_post_di_angle\<close> deflects by 18 degrees times the part of the stick that is
  perpendicular to the knockback.  Exact arithmetic stands in for the float operations.
\<close>

definition example_region :: "Position \<Rightarrow> JoystickRegion" where
  "example_region p =
     (if x p \<ge> 2875 / 10000 \<and> y p \<ge> 2875 / 10000 then 1
      else if x p \<ge> 2875 / 10000 \<and> y p \<le> - (2875 / 10000) then 3
      else if x p \<le> - (2875 / 10000) \<and> y p \<le> - (2875 / 10000) then 5
      else if x p \<le> - (2875 / 10000) \<and> y p \<ge> 2875 / 10000 then 7
      else if y p \<ge> 2875 / 10000 then 0
      else if x p \<ge> 2875 / 10000 then 2
      else if y p \<le> - (2875 / 10000) then 4
      else if x p \<le> - (2875 / 10000) then 6
      else -1)"

definition example_l_cancel_input :: "PortData \<Rightarrow> PortData \<Rightarrow> bool" where
  "example_l_cancel_input f p =
     (list_ex (\<lambda>b. b \<in> set (physical_pressed (pre f)) \<and> b \<notin> set (physical_pressed (pre p)))
        [Physical_L, Physical_R, Physical_Z])"

definition example_common :: Common where
  "example_common =
     \<lparr> is_in_hitlag = (\<lambda>fl. odd (fl div 32)),
       is_fastfalling = (\<lambda>fl. odd (fl div 8)),
       is_shielding = (\<lambda>st. 178 \<le> st \<and> st \<le> 182),
       is_teching = (\<lambda>st. 199 \<le> st \<and> st \<le> 204),
       is_damaged = (\<lambda>st. 75 \<le> st \<and> st \<le> 91),
       just_took_damage = (\<lambda>p q. p > q),
       just_input_l_cancel = example_l_cancel_input,
       get_joystick_region = example_region,
       get_angle = (\<lambda>p. 0),
       degrees = (\<lambda>r. r * 180 * 113 / 355),
       get_post_di_angle = (\<lambda>stick kbv. 18 * (x kbv * y stick - y kbv * x stick)),
       get_post_di_velocity = (\<lambda>a kbv. kbv),
       get_tech_type = (\<lambda>st d. TechType_other ''TECH_IN_PLACE''),
       get_ground = (\<lambda>stg g. g),
       Attack_name = (\<lambda>v. Some ''ATTACK''),
       JoystickRegion_DEAD_ZONE = -1,
       JoystickRegion_UP = 0,
       JoystickRegion_DOWN = 4,
       JoystickRegion_LEFT = 6,
       JoystickRegion_RIGHT = 2,
       float_sub = (-), float_mul = (*), float_div = (/),
       float_mod = (\<lambda>a b. a - b * of_int \<lfloor>a / b\<rfloor>),
       float_hundredth = 1 / 100 \<rparr>"

definition dashdance_frames :: "PortData list" where
  "dashdance_frames = map frame_in_state [14, 14, 14, 14, 14, 20, 20, 20, 20, 18, 20, 14]"

text \<open>
  The scenario of the specification as a whole game: the player dashes from frame 5,
  turns on frame 9 and dashes again on frame 10, the last frame.
\<close>

definition dashdance_game :: "PortData list" where
  "dashdance_game = map frame_in_state [14, 14, 14, 14, 14, 20, 20, 20, 20, 18, 20]"

definition dashdance_record :: "int \<Rightarrow> DashData" where
  "dashdance_record i =
     \<lparr> DashData.frame_index = i, DashData.stocks_remaining = Some 4, DashData.start_pos = 0,
       DashData.end_pos = 0, DashData.direction = Some ''RIGHT'', is_dashdance = True \<rparr>"

text \<open>
  Frames of a hit: the player stands, is in hitlag for one frame with knockback \<open>kb\<close>
  while holding the stick up (\<open>hit_frame kb 32\<close>, percent 0 to 12), and leaves hitlag
  on the next frame.  \<open>open_hit kb\<close> is the record that \<open>take_hit_compute\<close> holds open
  after the hitlag frame.
\<close>

definition hit_frame :: "Position \<Rightarrow> nat \<Rightarrow> PortData" where
  "hit_frame kb fl =
     \<lparr> pre = \<lparr> joystick = \<lparr> x = 0, y = 1 \<rparr>, cstick = origin, physical_pressed = [] \<rparr>,
       post = (post (frame_in_state 75))\<lparr> flags := fl, Post.percent := 12,
                knockback_speed := kb \<rparr> \<rparr>"

definition take_hit_frames :: "Position \<Rightarrow> PortData list" where
  "take_hit_frames kb = [frame_in_state 14, hit_frame kb 32, hit_frame kb 0, frame_in_state 14]"

definition idle_frames :: "nat \<Rightarrow> PortData list" where
  "idle_frames n = replicate n (frame_in_state 14)"

definition open_hit :: "Position \<Rightarrow> TakeHitData" where
  "open_hit kb =
     TakeHitData_init
       \<lparr> TakeHitData.frame_index := 1, TakeHitData.last_hit_by := Some 0,
         state_before_hit := Some 14, grounded := Some True, crouch_cancel := Some False,
         hitlag_frames := 1, stick_regions_during_hitlag := [0],
         TakeHitData.percent := Some 12, kb_velocity := Some kb, kb_angle := Some 0,
         TakeHitData.start_pos := Some origin \<rparr>"

text \<open>
  Frames of aerial landings and air dodges: a frame with one button pressed, the frame
  of a landing with a given L-cancel status, a missed L-cancel with no shield press at
  all before it, a missed L-cancel whose only press is 20 frames before the landing, a
  wavedash (jump squat, air dodge with R, special landing) and a special landing with no
  trigger press before it.
\<close>

definition press_frame :: "int \<Rightarrow> Physical \<Rightarrow> PortData" where
  "press_frame st b =
     (frame_in_state st)\<lparr> pre := (pre (frame_in_state st))\<lparr> physical_pressed := [b] \<rparr> \<rparr>"

definition landing_frame :: "LCancel \<Rightarrow> PortData" where
  "landing_frame lc =
     (frame_in_state 70)\<lparr> post := (post (frame_in_state 70))\<lparr> Post.l_cancel := lc \<rparr> \<rparr>"

definition no_press_landing_frames :: "PortData list" where
  "no_press_landing_frames =
     [frame_in_state 14, frame_in_state 65, landing_frame FAILURE] @ idle_frames 6"

definition early_press_landing_frames :: "PortData list" where
  "early_press_landing_frames =
     [frame_in_state 14, press_frame 65 Physical_L] @ replicate 19 (frame_in_state 65)
       @ [landing_frame FAILURE] @ idle_frames 6"

definition wavedash_frames :: "PortData list" where
  "wavedash_frames =
     [frame_in_state 14, frame_in_state 24, frame_in_state 24, frame_in_state 24,
      press_frame 236 Physical_R, frame_in_state 43, frame_in_state 43, frame_in_state 14]"

definition waveland_frames :: "PortData list" where
  "waveland_frames =
     idle_frames 6 @ [frame_in_state 35, frame_in_state 43, frame_in_state 14]"

text \<open>
  An instance of the decoders for running the parser on concrete bytes: the event codes
  are \<open>0x35\<close> to \<open>0x3C\<close>, a decoded object is its payload, a frame id is a big-endian
  32-bit frame index (followed by the port and the follower flag for pre- and post-frame
  events), and the metadata document is the two bytes \<open>{}\<close>.  \<open>example_header\<close> is the
  preamble, the announced length 0 and a size table for the codes \<open>0x36\<close> (2 bytes),
  \<open>0x37\<close> (6 bytes) and \<open>0x39\<close> (1 byte).  \<open>unknown_code_file\<close> continues with a game-start
  record and the code \<open>0x99\<close>, which the table does not have.  \<open>game_file len\<close> is a
  whole file that announces the length \<open>len\<close>: the preamble, the length, the same size
  table (11 bytes), a game-start record (3 bytes), a pre-frame record of frame -123
  (7 bytes), the end-of-game record (2 bytes), the metadata and the terminator; the
  events start at offset 26 and end at offset 38 of 51.
\<close>

definition example_event_type :: "nat \<Rightarrow> EventType option" where
  "example_event_type code =
     (if code = 0x35 then Some EVENT_PAYLOADS else if code = 0x36 then Some GAME_START
      else if code = 0x37 then Some FRAME_PRE else if code = 0x38 then Some FRAME_POST
      else if code = 0x39 then Some GAME_END else if code = 0x3A then Some FRAME_START
      else if code = 0x3B then Some ITEM else if code = 0x3C then Some FRAME_END
      else None)"

definition example_event_value :: "EventType \<Rightarrow> nat" where
  "example_event_value t =
     (case t of EVENT_PAYLOADS \<Rightarrow> 0x35 | GAME_START \<Rightarrow> 0x36 | FRAME_PRE \<Rightarrow> 0x37
      | FRAME_POST \<Rightarrow> 0x38 | GAME_END \<Rightarrow> 0x39 | FRAME_START \<Rightarrow> 0x3A | ITEM \<Rightarrow> 0x3B
      | FRAME_END \<Rightarrow> 0x3C)"

definition example_id_parse :: "bool \<Rightarrow> byte list \<Rightarrow> py_exc \<times> nat + EventId \<times> byte list" where
  "example_id_parse with_port payload =
     (case unpack_int32 (take 4 payload) of
        Inl e \<Rightarrow> Inl (e, length payload)
      | Inr n \<Rightarrow>
          if with_port then
            (case drop 4 payload of
               p # f # rest \<Rightarrow> Inr (\<lparr> frame = n, port = unat p, is_follower = (f \<noteq> 0) \<rparr>, rest)
             | _ \<Rightarrow> Inl (StructError, length payload))
          else Inr (\<lparr> frame = n, port = 0, is_follower = False \<rparr>, drop 4 payload))"

definition example_decoders :: "byte list Decoders" where
  "example_decoders =
     \<lparr> EventType_of = example_event_type,
       EventType_value = example_event_value,
       Start_parse = Inr, End_parse = Inr,
       Id_parse = example_id_parse False,
       PortId_parse = example_id_parse True,
       Item_parse = Inr, FrameStart_parse = Inr, FrameEnd_parse = Inr,
       Frame_init = (\<lambda>i. \<lparr> index = i, ports = [None, None, None, None], items = [],
                             frame_start = None, frame_end = None \<rparr>),
       Port_init = \<lparr> leader = \<lparr> pre_data = None, post_data = None \<rparr>, follower = None \<rparr>,
       Data_init = \<lparr> pre_data = None, post_data = None \<rparr>,
       Frame_finalize = (\<lambda>f. f),
       ubjson_load = (\<lambda>s. case stream_read 2 s of (bs, s') \<Rightarrow>
                              if bs = [0x7B, 0x7D] then Inr (bs, s') else Inl (ValueError, s')),
       Metadata_parse = Inr \<rparr>"

definition example_header :: "byte list" where
  "example_header =
     raw_preamble @ [0, 0, 0, 0] @ [0x35, 10, 0x36, 0, 2, 0x37, 0, 6, 0x39, 0, 1]"

definition unknown_code_file :: "bool option \<Rightarrow> byte_stream" where
  "unknown_code_file sk =
     \<lparr> bytes = example_header @ [0x36, 1, 2, 0x99, 0, 0], pos = 0, seekable = sk,
       seek = (case sk of Some True \<Rightarrow> Seek_BytesIO | Some False \<Rightarrow> Seek_unsupported
               | None \<Rightarrow> Seek_mmap) \<rparr>"


definition example_sizes :: "nat \<rightharpoonup> nat" where
  "example_sizes = [0x36 \<mapsto> 2, 0x37 \<mapsto> 6, 0x39 \<mapsto> 1]"


definition decoding_state ::
  "byte_stream \<Rightarrow> int \<Rightarrow> byte list event option \<Rightarrow> byte list Frame option \<Rightarrow>
   byte list handled list \<Rightarrow> byte list loop_state" where
  "decoding_state s n ev cf out =
     \<lparr> stream = s, bytes_read = n, event = ev, current_frame = cf, handled = out \<rparr>"




















section \<open>Properties of the SDI extraction\<close>

lemma find_valid_sdi_body_contributes:
  "find_valid_sdi_body dz regions i (regions ! i) sdi =
     (if sdi_contributes dz regions i then sdi @ [regions ! i] else sdi)"
  by (simp add: find_valid_sdi_body_def sdi_contributes_def Let_def)

lemma find_valid_sdi_loop_filter:
  "find_valid_sdi_loop dz regions is sdi =
     sdi @ map ((!) regions) (filter (sdi_contributes dz regions) is)"
  by (induction "is" arbitrary: sdi) (simp_all add: find_valid_sdi_body_contributes)

text \<open>
  Claim C8.  The entries that \<open>_find_valid_sdi\<close> appends to \<open>sdi_inputs\<close> are the
  regions of the contributing samples, in order; the first recorded sample (index 0)
  never contributes, and a sample whose region equals the region of the sample just
  before it never contributes, so two consecutive identical regions never add two
  entries.
\<close>

theorem find_valid_sdi_first_and_repeats:
  "sdi_inputs (find_valid_sdi dz self) =
     sdi_inputs self @
       map ((!) (stick_regions_during_hitlag self))
         (filter (sdi_contributes dz (stick_regions_during_hitlag self))
            [0 ..< length (stick_regions_during_hitlag self)])
   \<and> \<not> sdi_contributes dz regions 0
   \<and> (regions ! i = regions ! Suc i \<longrightarrow> \<not> sdi_contributes dz regions (Suc i))"
  by (simp add: find_valid_sdi_def find_valid_sdi_loop_filter sdi_contributes_def
      find_valid_sdi_body_def)

text \<open>
  The scenario of the specification: with the dead zone at \<open>-1\<close>, \<open>UP = 0\<close> and
  \<open>RIGHT = 2\<close>, the history \<open>[DEAD_ZONE, UP, UP, RIGHT]\<close> yields \<open>[UP, RIGHT]\<close>: the
  repeated \<open>UP\<close> at index 2 adds nothing.
\<close>

theorem find_valid_sdi_first_and_repeats_witness:
  "sdi_inputs (find_valid_sdi (-1)
      (TakeHitData_init\<lparr> stick_regions_during_hitlag := [-1, 0, 0, 2] \<rparr>)) = [0, 2]
   \<and> [-1, 0, 0, 2 :: int] ! 1 = [-1, 0, 0, 2] ! Suc 1
   \<and> \<not> sdi_contributes (-1) [-1, 0, 0, 2] (Suc 1)
   \<and> sdi_contributes (-1) [-1, 0, 0, 2] 1"
  using find_valid_sdi_first_and_repeats
    [of "-1" "TakeHitData_init\<lparr> stick_regions_during_hitlag := [-1, 0, 0, 2] \<rparr>"
        "[-1, 0, 0, 2]" 1]
  by (simp add: TakeHitData_init_def sdi_contributes_def find_valid_sdi_body_def
      upt_conv_Cons)


section \<open>Properties of the loops\<close>

lemma for_enumerate_append:
  "for_enumerate body (is @ js) s =
     (case for_enumerate body is s of Inl e \<Rightarrow> Inl e | Inr s' \<Rightarrow> for_enumerate body js s')"
  by (induction "is" arbitrary: s) (auto split: sum.splits)

lemma py_index_prev: "0 < i \<Longrightarrow> i < length xs \<Longrightarrow> py_index xs (int i - 1) = Inr (xs ! (i - 1))"
  by (auto simp: py_index_def nat_diff_distrib)

lemma py_index_prev2: "1 < i \<Longrightarrow> i < length xs \<Longrightarrow> py_index xs (int i - 2) = Inr (xs ! (i - 2))"
  by (auto simp: py_index_def nat_diff_distrib)

lemma py_index_prev2_Inr: "0 < i \<Longrightarrow> i < length xs \<Longrightarrow> \<exists>f. py_index xs (int i - 2) = Inr f"
  by (auto simp: py_index_def)

lemma has_dashdance_update:
  assumes "has_dashdance k dashes" "j < length dashes"
  shows "has_dashdance k (dashes[j := (dashes ! j)\<lparr>is_dashdance := True\<rparr>])"
proof -
  from assms(1) obtain m where m: "m < length dashes" "DashData.frame_index (dashes ! m) = k"
    "is_dashdance (dashes ! m)"
    by (auto simp: has_dashdance_def in_set_conv_nth)
  let ?ds = "dashes[j := (dashes ! j)\<lparr>is_dashdance := True\<rparr>]"
  have "DashData.frame_index (?ds ! m) = k \<and> is_dashdance (?ds ! m)"
    using m assms(2) by (cases "m = j") simp_all
  moreover have "?ds ! m \<in> set ?ds" using m(1) by simp
  ultimately show ?thesis unfolding has_dashdance_def by blast
qed


lemma dash_body_unfold:
  assumes "0 < i" "i < length frames"
  shows "\<exists>pp. dash_body frames i s = dash_step i (frames ! i) (frames ! (i - 1)) pp s
           \<and> (1 < i \<longrightarrow> pp = frames ! (i - 2))"
proof -
  obtain pp where pp: "py_index frames (int i - 2) = Inr pp"
    using py_index_prev2_Inr[OF assms] by blast
  have "1 < i \<Longrightarrow> pp = frames ! (i - 2)"
    using py_index_prev2[of i frames] pp assms by simp
  then show ?thesis
    using pp py_index_prev[OF assms] by (auto simp: dash_body_def)
qed

lemma dash_step_stay:
  assumes "Post.state (post f) = ActionState_DASH" "Post.state (post p) = ActionState_DASH"
  shows "dash_step i f p pp s = Inr s"
  using assms
  by (cases s) (simp add: dash_step_def dash_enter_def dash_exit_def just_entered_state_def
      just_exited_state_def)

lemma dash_step_exit:
  assumes "Post.state (post f) \<noteq> ActionState_DASH" "Post.state (post p) = ActionState_DASH"
    "dash_step i f p pp (self, dashes) = Inr s'"
  shows "\<exists>d. dash_state self = Some d
           \<and> s' = (self\<lparr> dash_state := None \<rparr>,
                   dashes @ [d\<lparr> DashData.end_pos := x (Post.position (post f)) \<rparr>])"
  using assms
  by (auto simp: dash_step_def dash_enter_def dash_exit_def just_entered_state_def
      just_exited_state_def split: option.splits)

lemma dash_step_enter:
  assumes "Post.state (post f) = ActionState_DASH" "Post.state (post p) \<noteq> ActionState_DASH"
    "dash_step i f p pp (self, dashes) = Inr (self', dashes')"
  shows "\<exists>d. dash_state self' = Some d \<and> DashData.frame_index d = int i"
  using assms
  by (auto simp: dash_step_def dash_enter_def dash_exit_def just_entered_state_def
      just_exited_state_def DashData_new_def split: sum.splits if_splits)

lemma dash_step_dashdance:
  assumes "Post.state (post f) = ActionState_DASH" "Post.state (post p) = ActionState_TURN"
    "Post.state (post pp) = ActionState_DASH"
    "dash_step i f p pp (self, dashes @ [d]) = Inr (self', dashes')"
  shows "dashes' = dashes @ [d\<lparr> is_dashdance := True \<rparr>]
         \<and> (\<exists>e. dash_state self' = Some e \<and> DashData.frame_index e = int i \<and> is_dashdance e)"
  using assms
  by (auto simp: dash_step_def dash_enter_def dash_exit_def just_entered_state_def
      just_exited_state_def DashData_new_def mark_last_dashdance_def py_index_def
      ActionState_TURN_def ActionState_DASH_def split: sum.splits if_splits)

lemma mark_last_dashdance_has:
  assumes "mark_last_dashdance dashes = Inr dashes'" "has_dashdance k dashes"
  shows "has_dashdance k dashes'"
proof -
  from assms(2) have ne: "dashes \<noteq> []" by (auto simp: has_dashdance_def)
  then have "py_index dashes (- 1) = Inr (dashes ! (length dashes - 1))"
    by (cases dashes) (auto simp: py_index_def nat_diff_distrib)
  with assms(1) have "dashes' = dashes[length dashes - 1 :=
      (dashes ! (length dashes - 1))\<lparr>is_dashdance := True\<rparr>]"
    by (simp add: mark_last_dashdance_def)
  then show ?thesis using has_dashdance_update[OF assms(2), of "length dashes - 1"] ne by simp
qed

lemma has_dashdance_append: "has_dashdance k dashes \<Longrightarrow> has_dashdance k (dashes @ ds)"
  by (auto simp: has_dashdance_def)

lemma dash_enter_preserves:
  assumes "dash_enter i f p pp (self, dashes) = Inr (self', dashes')" "has_dashdance k dashes"
  shows "has_dashdance k dashes'"
  using assms
  by (auto simp: dash_enter_def split: sum.splits if_splits dest: mark_last_dashdance_has)

lemma dash_exit_preserves:
  assumes "dash_exit f p (self, dashes) = Inr (self', dashes')" "has_dashdance k dashes"
  shows "has_dashdance k dashes'"
  using assms
  by (auto simp: dash_exit_def split: if_splits option.splits dest: has_dashdance_append)

lemma dash_step_preserves:
  assumes "dash_step i f p pp (self, dashes) = Inr (self', dashes')" "has_dashdance k dashes"
  shows "has_dashdance k dashes'"
proof -
  from assms(1) obtain s1 where s1: "dash_enter i (post f) (Post.state (post p))
      (Post.state (post pp)) (self, dashes) = Inr s1"
    and s2: "dash_exit (post f) (Post.state (post p)) s1 = Inr (self', dashes')"
    by (auto simp: dash_step_def split: sum.splits)
  obtain self1 dashes1 where [simp]: "s1 = (self1, dashes1)" by (cases s1)
  have "has_dashdance k dashes1" using dash_enter_preserves s1 assms(2) by simp
  then show ?thesis using dash_exit_preserves s2 by simp
qed


lemma dash_run:
  assumes "0 < a" "Post.state (post (frames ! (a - 1))) \<noteq> ActionState_DASH"
    "\<forall>i. a \<le> i \<and> i < m \<longrightarrow> Post.state (post (frames ! i)) = ActionState_DASH"
    "a < m" "m \<le> length frames"
    "for_enumerate (dash_body frames) [a ..< m] s = Inr s'"
  shows "\<exists>d. dash_state (fst s') = Some d \<and> DashData.frame_index d = int a"
  using assms(3-)
proof (induction m arbitrary: s')
  case 0
  then show ?case by simp
next
  case (Suc m)
  show ?case
  proof (cases "a = m")
    case True
    obtain pp where "dash_body frames a s = dash_step a (frames ! a) (frames ! (a - 1)) pp s"
      using dash_body_unfold[of a frames s] assms(1) Suc.prems True by auto
    moreover have "dash_body frames a s = Inr s'" using Suc.prems(4) True
      by (simp split: sum.splits)
    ultimately have "dash_step a (frames ! a) (frames ! (a - 1)) pp (fst s, snd s)
        = Inr (fst s', snd s')" by simp
    moreover have "Post.state (post (frames ! a)) = ActionState_DASH"
      using Suc.prems(1) True by simp
    ultimately show ?thesis using dash_step_enter assms(2) by blast
  next
    case False
    then have lt: "a < m" using Suc.prems(2) by simp
    have "[a ..< Suc m] = [a ..< m] @ [m]" using lt by simp
    then obtain s1 where s1: "for_enumerate (dash_body frames) [a ..< m] s = Inr s1"
      and s2: "dash_body frames m s1 = Inr s'"
      using Suc.prems(4) by (auto simp: for_enumerate_append split: sum.splits)
    have ih: "\<exists>d. dash_state (fst s1) = Some d \<and> DashData.frame_index d = int a"
      using Suc.IH[OF _ lt _ s1] Suc.prems(1,3) by simp
    obtain pp where "dash_body frames m s1 = dash_step m (frames ! m) (frames ! (m - 1)) pp s1"
      using dash_body_unfold[of m frames s1] lt Suc.prems(3) by auto
    moreover have "a \<le> m - 1" "m - 1 < Suc m" using lt by arith+
    then have "Post.state (post (frames ! m)) = ActionState_DASH"
      "Post.state (post (frames ! (m - 1))) = ActionState_DASH"
      using Suc.prems(1) lt by auto
    ultimately have "dash_body frames m s1 = Inr s1" using dash_step_stay by simp
    with s2 ih show ?thesis by simp
  qed
qed


section \<open>Properties of dash\_compute\<close>

lemma dashdance_inv_step:
  assumes "dashdance_inv frames a b i s" "Suc i < length frames"
    "dash_body frames (Suc i) s = Inr s'"
  shows "dashdance_inv frames a b (Suc i) s'"
proof -
  obtain self dashes self' dashes' where [simp]: "s = (self, dashes)" "s' = (self', dashes')"
    by (cases s, cases s')
  obtain pp where step: "dash_step (Suc i) (frames ! Suc i) (frames ! i) pp (self, dashes)
      = Inr (self', dashes')"
    using dash_body_unfold[of "Suc i" frames s] assms(2,3) by auto
  have a: "has_dashdance (int a) dashes'"
    using dash_step_preserves[OF step] assms(1) by (simp add: dashdance_inv_def)
  show ?thesis
  proof (cases "has_dashdance (int b) dashes")
    case True
    then show ?thesis using dash_step_preserves[OF step] a by (simp add: dashdance_inv_def)
  next
    case False
    then obtain d where d: "dash_state self = Some d" "DashData.frame_index d = int b"
      "is_dashdance d" and prev: "Post.state (post (frames ! i)) = ActionState_DASH"
      using assms(1) by (auto simp: dashdance_inv_def)
    show ?thesis
    proof (cases "Post.state (post (frames ! Suc i)) = ActionState_DASH")
      case True
      then have "(self', dashes') = (self, dashes)"
        using dash_step_stay[OF True prev] step by simp
      then show ?thesis using d True assms(1) by (auto simp: dashdance_inv_def)
    next
      case False
      from dash_step_exit[OF False prev step] d
      have "dashes' = dashes @ [d\<lparr> DashData.end_pos := x (Post.position (post (frames ! Suc i))) \<rparr>]"
        by auto
      then have "has_dashdance (int b) dashes'" using d by (auto simp: has_dashdance_def)
      then show ?thesis using a by (simp add: dashdance_inv_def)
    qed
  qed
qed

lemma dashdance_inv_loop:
  assumes "dashdance_inv frames a b i s" "i < n" "n \<le> length frames"
    "for_enumerate (dash_body frames) [Suc i ..< n] s = Inr s'"
  shows "dashdance_inv frames a b (n - 1) s'"
  using assms(2-)
proof (induction n arbitrary: s')
  case 0
  then show ?case by simp
next
  case (Suc n)
  show ?case
  proof (cases "i = n")
    case True
    then show ?thesis using Suc.prems assms(1) by simp
  next
    case False
    then have lt: "i < n" using Suc.prems(1) by simp
    then have "[Suc i ..< Suc n] = [Suc i ..< n] @ [n]" by simp
    then obtain s1 where s1: "for_enumerate (dash_body frames) [Suc i ..< n] s = Inr s1"
      and s2: "dash_body frames n s1 = Inr s'"
      using Suc.prems(3) by (auto simp: for_enumerate_append split: sum.splits)
    have "dashdance_inv frames a b (n - 1) s1" using Suc.IH[OF lt _ s1] Suc.prems(2) by simp
    moreover have "Suc (n - 1) = n" using lt by simp
    ultimately show ?thesis
      using dashdance_inv_step[of frames a b "n - 1" s1 s'] s2 Suc.prems(2) by simp
  qed
qed

lemma upt_split: "i \<le> j \<Longrightarrow> j \<le> k \<Longrightarrow> [i ..< k] = [i ..< j] @ [j ..< k]"
  using upt_add_eq_append[of i j "k - j"] by simp

text \<open>
  The marking on the runs that complete.  Let the player enter the dash state at frame
  \<open>a\<close> (frame \<open>a - 1\<close> is not a dash frame), stay in it up to frame \<open>b - 2\<close>, be in the
  turn state at frame \<open>b - 1\<close> and in the dash state again at frame \<open>b\<close>.  If
  \<open>dash_compute\<close>, started on an empty list of dashes, runs to its end, the list it
  returns holds the record opened at \<open>a\<close> marked as a dashdance, and the record opened
  at \<open>b\<close> is marked as a dashdance too: it is in the list when the second dash has ended,
  and is the open \<open>self.dash_state\<close> otherwise.
\<close>

lemma dash_compute_marks_dashdance:
  assumes run: "dash_compute self frames [] = Inr (self', dashes')"
    and a: "0 < a" "a + 2 \<le> b" "b < length frames"
    and before: "Post.state (post (frames ! (a - 1))) \<noteq> ActionState_DASH"
    and dash1: "\<forall>i. a \<le> i \<and> i + 2 \<le> b \<longrightarrow> Post.state (post (frames ! i)) = ActionState_DASH"
    and turn: "Post.state (post (frames ! (b - 1))) = ActionState_TURN"
    and dash2: "Post.state (post (frames ! b)) = ActionState_DASH"
  shows "has_dashdance (int a) dashes'
     \<and> (has_dashdance (int b) dashes'
        \<or> (\<exists>d. dash_state self' = Some d \<and> DashData.frame_index d = int b \<and> is_dashdance d))"
proof -
  let ?body = "dash_body frames"
  let ?n = "length frames"
  have "[0 ..< ?n] = [0 ..< a] @ [a ..< ?n]" using a by (simp add: upt_split)
  also have "[a ..< ?n] = [a ..< b - 1] @ [b - 1 ..< ?n]" using a by (simp add: upt_split)
  also have "[b - 1 ..< ?n] = (b - 1) # [b ..< ?n]" using a upt_conv_Cons[of "b - 1" ?n] by simp
  also have "[b ..< ?n] = b # [Suc b ..< ?n]" using a upt_conv_Cons[of b ?n] by simp
  finally have split: "[0 ..< ?n] = [0 ..< a] @ [a ..< b - 1] @ (b - 1) # b # [Suc b ..< ?n]" .
  from run obtain s1 s2 s3 s4 where
    s1: "for_enumerate ?body [0 ..< a] (self, []) = Inr s1" and
    s2: "for_enumerate ?body [a ..< b - 1] s1 = Inr s2" and
    s3: "?body (b - 1) s2 = Inr s3" and
    s4: "?body b s3 = Inr s4" and
    s5: "for_enumerate ?body [Suc b ..< ?n] s4 = Inr (self', dashes')"
    unfolding dash_compute_def split
    by (auto simp: for_enumerate_append split: sum.splits)
  have run1: "\<forall>i. a \<le> i \<and> i < b - 1 \<longrightarrow> Post.state (post (frames ! i)) = ActionState_DASH"
    using dash1 by auto
  have "a < b - 1" "b - 1 \<le> length frames" using a by arith+
  from dash_run[OF a(1) before run1 this s2]
  obtain d where d: "dash_state (fst s2) = Some d" "DashData.frame_index d = int a"
    by auto
  have "a \<le> b - 2 \<and> (b - 2) + 2 \<le> b" using a by arith
  then have prev: "Post.state (post (frames ! (b - 2))) = ActionState_DASH"
    using dash1 by blast
  have ne: "Post.state (post (frames ! (b - 1))) \<noteq> ActionState_DASH"
    using turn by (simp add: ActionState_TURN_def ActionState_DASH_def)
  have "0 < b - 1" "b - 1 < length frames" using a by arith+
  from dash_body_unfold[OF this, of s2]
  obtain pp where "?body (b - 1) s2 = dash_step (b - 1) (frames ! (b - 1)) (frames ! (b - 1 - 1)) pp s2"
    by blast
  moreover have "b - 1 - 1 = b - 2" by simp
  ultimately have "dash_step (b - 1) (frames ! (b - 1)) (frames ! (b - 2)) pp (fst s2, snd s2) = Inr s3"
    using s3 by simp
  from dash_step_exit[OF ne prev this] d
  obtain self3 d3 where s3_eq: "s3 = (self3, snd s2 @ [d3])" and d3: "DashData.frame_index d3 = int a"
    by auto
  have "0 < b" "1 < b" using a by arith+
  from dash_body_unfold[OF \<open>0 < b\<close> a(3), of s3] \<open>1 < b\<close>
  obtain pp' where "?body b s3 = dash_step b (frames ! b) (frames ! (b - 1)) pp' s3"
      and "pp' = frames ! (b - 2)"
    by blast
  then have "dash_step b (frames ! b) (frames ! (b - 1)) (frames ! (b - 2)) (self3, snd s2 @ [d3])
      = Inr (fst s4, snd s4)"
    using s4 s3_eq by simp
  from dash_step_dashdance[OF dash2 turn prev this]
  obtain e where s4_eq: "snd s4 = snd s2 @ [d3\<lparr> is_dashdance := True \<rparr>]"
    and e: "dash_state (fst s4) = Some e" "DashData.frame_index e = int b" "is_dashdance e"
    by auto
  have "has_dashdance (int a) (snd s4)" using s4_eq d3 by (auto simp: has_dashdance_def)
  then have "dashdance_inv frames a b b s4" using e dash2 by (simp add: dashdance_inv_def)
  from dashdance_inv_loop[OF this a(3) _ s5]
  show ?thesis by (auto simp: dashdance_inv_def)
qed


text \<open>
  The scenario of the specification followed by one more frame, on which the player
  stands: the run completes and yields the two records of frames 5 and 10, both marked.
\<close>

lemma dashdance_frames_run:
  "dash_compute (StatsComputer_init (3, 5, 0) 0) dashdance_frames [] =
     Inr (StatsComputer_init (3, 5, 0) 0, [dashdance_record 5, dashdance_record 10])"
  by code_simp

lemma dashdance_frames_marked:
  "dash_compute (StatsComputer_init (3, 5, 0) 0) dashdance_frames [] =
     Inr (StatsComputer_init (3, 5, 0) 0, [dashdance_record 5, dashdance_record 10])
   \<and> has_dashdance 5 [dashdance_record 5, dashdance_record 10]
   \<and> has_dashdance 10 [dashdance_record 5, dashdance_record 10]"
proof -
  let ?fs = dashdance_frames
  have len: "(10::nat) < length ?fs" by (simp add: dashdance_frames_def)
  have before: "Post.state (post (?fs ! (5 - 1))) \<noteq> ActionState_DASH"
    by (simp add: dashdance_frames_def frame_in_state_def ActionState_DASH_def)
  have dash1: "\<forall>i. (5::nat) \<le> i \<and> i + 2 \<le> 10 \<longrightarrow>
      Post.state (post (?fs ! i)) = ActionState_DASH"
  proof (intro allI impI)
    fix i :: nat assume "5 \<le> i \<and> i + 2 \<le> 10"
    then have "i = 5 \<or> i = 6 \<or> i = 7 \<or> i = 8" by arith
    then show "Post.state (post (?fs ! i)) = ActionState_DASH"
      by (auto simp: dashdance_frames_def frame_in_state_def ActionState_DASH_def)
  qed
  have turn: "Post.state (post (?fs ! (10 - 1))) = ActionState_TURN"
    by (simp add: dashdance_frames_def frame_in_state_def ActionState_TURN_def)
  have dash2: "Post.state (post (?fs ! 10)) = ActionState_DASH"
    by (simp add: dashdance_frames_def frame_in_state_def ActionState_DASH_def)
  have "has_dashdance (int 5) [dashdance_record 5, dashdance_record 10]
     \<and> (has_dashdance (int 10) [dashdance_record 5, dashdance_record 10]
        \<or> (\<exists>d. dash_state (StatsComputer_init (3, 5, 0) 0) = Some d
               \<and> DashData.frame_index d = int 10 \<and> is_dashdance d))"
    by (rule dash_compute_marks_dashdance[OF dashdance_frames_run _ _ len before dash1 turn dash2])
      simp_all
  then show ?thesis
    using dashdance_frames_run by (simp add: StatsComputer_init_def)
qed

text \<open>
  Claim C6 fails on the code.  In the scenario of the specification as it stands, a
  game of 11 frames whose last frame is the second dash, \<open>dash_compute\<close> raises
  \<open>AttributeError\<close> in its first iteration and marks nothing: at index 0 the previous
  frame is the last frame, which is a dash frame, so the player counts as having left
  the dash state, and the block that closes a dash reads \<open>self.dash_state.end_pos\<close>
  with \<open>self.dash_state\<close> still \<open>None\<close>.
\<close>

theorem dash_compute_raises_on_final_dash:
  "Post.state (post (dashdance_game ! 0)) \<noteq> ActionState_DASH
   \<and> Post.state (post (last dashdance_game)) = ActionState_DASH
   \<and> dash_body dashdance_game 0 (StatsComputer_init (3, 5, 0) 0, []) = Inl AttributeError
   \<and> dash_compute (StatsComputer_init (3, 5, 0) 0) dashdance_game [] = Inl AttributeError"
  by code_simp


section \<open>Properties of take\_hit\_compute\<close>

text \<open>
  Claim C7, as the code has it.  When a take-hit window closes with knockback data
  available (the knockback check is on and the record holds the knockback velocity and
  angle), the closing block succeeds and the final knockback angle is the angle of the
  deflection formula when both components of the original knockback velocity are
  nonzero, and the original knockback angle otherwise.
\<close>

theorem take_hit_close_final_angle:
  assumes "kb_velocity t = Some kbv" "kb_angle t = Some ka"
  shows "\<exists>t'. take_hit_close h True f p t = Inr t'
     \<and> final_kb_angle t' =
         Some (if x kbv \<noteq> 0 \<and> y kbv \<noteq> 0
               then get_post_di_angle h (take_hit_effective_stick h (joystick (pre f))) kbv
               else ka)"
  using assms by (simp add: take_hit_close_def take_hit_knockback_def Let_def)

text \<open>
  A hit with diagonal knockback \<open>(1, 1)\<close> and the stick held up gets the angle of the
  deflection formula.
\<close>

theorem take_hit_close_final_angle_witness:
  "kb_velocity (open_hit \<lparr> x = 1, y = 1 \<rparr>) = Some \<lparr> x = 1, y = 1 \<rparr>
   \<and> kb_angle (open_hit \<lparr> x = 1, y = 1 \<rparr>) = Some 0
   \<and> (\<exists>t'. take_hit_close example_common True (hit_frame \<lparr> x = 1, y = 1 \<rparr> 0)
             (hit_frame \<lparr> x = 1, y = 1 \<rparr> 32) (open_hit \<lparr> x = 1, y = 1 \<rparr>) = Inr t'
          \<and> final_kb_angle t' = Some 18)"
proof -
  have kbv: "kb_velocity (open_hit \<lparr> x = 1, y = 1 \<rparr>) = Some \<lparr> x = 1, y = 1 \<rparr>"
    and ka: "kb_angle (open_hit \<lparr> x = 1, y = 1 \<rparr>) = Some 0"
    by (simp_all add: open_hit_def TakeHitData_init_def)
  have "get_post_di_angle example_common
          (take_hit_effective_stick example_common
             (joystick (pre (hit_frame \<lparr> x = 1, y = 1 \<rparr> 0)))) \<lparr> x = 1, y = 1 \<rparr> = 18"
    by code_simp
  then show ?thesis
    using take_hit_close_final_angle[OF kbv ka, of example_common
        "hit_frame \<lparr> x = 1, y = 1 \<rparr> 0" "hit_frame \<lparr> x = 1, y = 1 \<rparr> 32"] kbv ka
    by simp
qed

text \<open>
  Claim C7 as stated fails: a hit with the purely horizontal knockback \<open>(1, 0)\<close> has a
  nonzero speed, the stick is held up and the deflection formula gives 18 degrees, yet
  the record closes with the original angle 0.
\<close>

theorem take_hit_close_horizontal_counterexample:
  "for_enumerate (take_hit_body example_common True (take_hit_frames \<lparr> x = 1, y = 0 \<rparr>)
       (idle_frames 4)) [0 ..< 2] (StatsComputer_init (3, 5, 0) 0, [])
     = Inr ((StatsComputer_init (3, 5, 0) 0)
              \<lparr> take_hit_state := Some (open_hit \<lparr> x = 1, y = 0 \<rparr>) \<rparr>, [])
   \<and> x \<lparr> x = 1, y = 0 \<rparr> \<noteq> (0 :: real)
   \<and> take_hit_close example_common True (take_hit_frames \<lparr> x = 1, y = 0 \<rparr> ! 2)
        (take_hit_frames \<lparr> x = 1, y = 0 \<rparr> ! 1) (open_hit \<lparr> x = 1, y = 0 \<rparr>)
     = Inr ((open_hit \<lparr> x = 1, y = 0 \<rparr>)
              \<lparr> asdi := Some 0, di_stick_pos := Some \<lparr> x = 0, y = 1 \<rparr>,
                final_kb_velocity := Some \<lparr> x = 1, y = 0 \<rparr>, final_kb_angle := Some 0,
                TakeHitData.end_pos := Some origin \<rparr>)
   \<and> get_post_di_angle example_common \<lparr> x = 0, y = 1 \<rparr> \<lparr> x = 1, y = 0 \<rparr> = 18"
  by code_simp


section \<open>Exceptions raised on well-formed frames\<close>

text \<open>
  Claim C2 fails on the code.  On the frames of one hit \<open>take_hit_compute\<close> raises
  \<open>AttributeError\<close> when the window closes: it calls \<open>find_valid_sdi\<close>, and the method of
  \<open>TakeHitData\<close> is named \<open>_find_valid_sdi\<close>.  On a missed L-cancel with no shield press
  before it \<open>l_cancel_compute\<close> raises \<open>UnboundLocalError\<close>: \<open>trigger_input_frame\<close> is
  read before any assignment.  On a wavedash \<open>wavedash_compute\<close> raises \<open>TypeError\<close>: it
  passes the keyword \<open>r_frame\<close>, which \<open>WavedashData.__init__\<close> does not take.
\<close>

theorem classifiers_raise:
  "take_hit_compute example_common (StatsComputer_init (3, 5, 0) 0)
       (take_hit_frames \<lparr> x = 1, y = 1 \<rparr>) (idle_frames 4) [] = Inl AttributeError
   \<and> l_cancel_compute example_common (StatsComputer_init (3, 5, 0) 0)
       no_press_landing_frames \<lparr> data = [], percentage = None \<rparr> = Inl UnboundLocalError
   \<and> wavedash_compute example_common (StatsComputer_init (3, 5, 0) 0) wavedash_frames []
       = Inl TypeError"
  by code_simp


section \<open>Properties of l\_cancel\_compute\<close>








text \<open>
  What a landing hands to the constructor before the call raises.  With one press of L
  at frame 1 and a missed L-cancel landing at frame 21, the loop reaches the landing with
  \<open>trigger_input_frame = 1\<close>; the offset it resolves is \<open>1 - 21 = -20\<close> (the test \<open>> 15\<close>
  never holds for an offset that is not positive), and this is the keyword argument of
  the call that raises \<open>TypeError\<close>.
\<close>

lemma l_cancel_early_press:
  "for_enumerate (l_cancel_body example_common 0 early_press_landing_frames) [0 ..< 21]
       (Unbound, False, []) = Inr (Bound (Some 1), False, [])
   \<and> l_cancel_resolve example_common early_press_landing_frames 21 (Bound (Some 1)) False
       = Inr (Some (- 20))
   \<and> map_of (l_cancel_keywords example_common 0 21 (early_press_landing_frames ! 21)
        (early_press_landing_frames ! 20) (Some (- 20)) False) ''trigger_input_frame''
       = Some (PyInt (- 20))
   \<and> l_cancel_compute example_common (StatsComputer_init (3, 5, 0) 0)
       early_press_landing_frames \<lparr> data = [], percentage = None \<rparr> = Inl TypeError"
  by code_simp


section \<open>Properties of wavedash\_compute\<close>

text \<open>
  The call \<open>WavedashData(...)\<close> of \<open>wavedash_compute\<close> raises \<open>TypeError\<close> whatever the
  frames are: it passes the keyword \<open>r_frame\<close>, which \<open>__init__\<close> does not take.  The
  call is the only assignment to \<open>self.wavedash_state\<close> after the constructor of the
  computer has set it to \<open>None\<close>, so the scan of a landing that completes has found no
  press and leaves \<open>self.wavedash_state\<close> at \<open>None\<close>.
\<close>

lemma WavedashData_call_raises: "WavedashData_call h i player_frame j = Inl TypeError"
  by (simp add: WavedashData_call_def binds_keywords_def WavedashData_params_def)

lemma wavedash_j_loop_None:
  "wavedash_j_loop h frames i js None = Inr ws \<Longrightarrow> ws = None"
  by (induction js) (auto simp: WavedashData_call_raises split: sum.splits if_splits)

lemma wavedash_body_keeps:
  assumes "wavedash_state self = None"
    and "wavedash_body h frames i (self, wavedashes) = Inr (self', wavedashes')"
  shows "wavedashes' = wavedashes \<and> wavedash_state self' = None"
proof -
  from assms(2) obtain prev where
    step: "wavedash_step h frames i prev (self, wavedashes) = Inr (self', wavedashes')"
    by (auto simp: wavedash_body_def split: sum.splits)
  show ?thesis
  proof (cases "Post.state (post (frames ! i)) = ActionState_LAND_FALL_SPECIAL
                \<and> Post.state (post prev) \<noteq> ActionState_LAND_FALL_SPECIAL")
    case False
    with step assms(1) show ?thesis by (auto simp: wavedash_step_def split: if_splits)
  next
    case True
    with step assms(1) obtain ws where
      j: "wavedash_j_loop h frames i [0 ..< 5] None = Inr ws"
      and r: "(case ws of None \<Rightarrow> Inr (self\<lparr> wavedash_state := ws \<rparr>, wavedashes)
               | Some w \<Rightarrow> Inr (self\<lparr> wavedash_state := ws \<rparr>, wavedashes @ [w]))
              = (Inr (self', wavedashes') :: py_exc + StatsComputer \<times> WavedashData list)"
      by (auto simp: wavedash_step_def split: sum.splits)
    from wavedash_j_loop_None[OF j] r show ?thesis by auto
  qed
qed

lemma wavedash_loop_keeps:
  "wavedash_state self = None \<Longrightarrow>
   for_enumerate (wavedash_body h frames) [0 ..< n] (self, wavedashes)
     = Inr (self', wavedashes') \<Longrightarrow>
   wavedashes' = wavedashes \<and> wavedash_state self' = None"
proof (induction n arbitrary: self' wavedashes')
  case 0
  then show ?case by simp
next
  case (Suc n)
  from Suc.prems(2) obtain self1 ws1 where
    s1: "for_enumerate (wavedash_body h frames) [0 ..< n] (self, wavedashes) = Inr (self1, ws1)"
    and b: "wavedash_body h frames n (self1, ws1) = Inr (self', wavedashes')"
    by (auto simp: for_enumerate_append split: sum.splits)
  from Suc.IH[OF Suc.prems(1) s1] have "ws1 = wavedashes" "wavedash_state self1 = None"
    by simp_all
  with wavedash_body_keeps[OF _ b] show ?case by simp
qed

text \<open>
  Claim C9.  For a computer whose \<open>wavedash_state\<close> is \<open>None\<close>, as its constructor leaves
  it, \<open>wavedash_compute\<close> returns the list of wavedashes it was given, and so does the
  frame loop after any number of iterations that completed, with \<open>wavedash_state\<close> still
  \<open>None\<close>.  So a rising edge into special landing lag appends at most one record (none),
  none when no trigger press is found in the window, and no record of an earlier landing
  is appended again.  The landings with a trigger press in the window are the ones where
  the constructor call raises.
\<close>

theorem wavedash_compute_appends_nothing:
  assumes "wavedash_state self = None"
  shows "(wavedash_compute h self frames wavedashes = Inr (self', wavedashes') \<longrightarrow>
            wavedashes' = wavedashes \<and> wavedash_state self' = None)
       \<and> (for_enumerate (wavedash_body h frames) [0 ..< n] (self, wavedashes)
            = Inr (self', wavedashes') \<longrightarrow>
          wavedashes' = wavedashes \<and> wavedash_state self' = None)"
  using assms wavedash_loop_keeps[of self h frames "length frames" wavedashes self' wavedashes']
    wavedash_loop_keeps[of self h frames n wavedashes self' wavedashes']
  by (simp add: wavedash_compute_def)

text \<open>
  A special landing at frame 7 with no trigger press in the five frames up to it: the
  pass completes and appends nothing.
\<close>

theorem wavedash_compute_appends_nothing_witness:
  "wavedash_state (StatsComputer_init (3, 5, 0) 0) = None
   \<and> wavedash_compute example_common (StatsComputer_init (3, 5, 0) 0) waveland_frames []
       = Inr (StatsComputer_init (3, 5, 0) 0, [])
   \<and> Post.state (post (waveland_frames ! 7)) = ActionState_LAND_FALL_SPECIAL
   \<and> Post.state (post (waveland_frames ! 6)) \<noteq> ActionState_LAND_FALL_SPECIAL"
proof -
  have init: "wavedash_state (StatsComputer_init (3, 5, 0) 0) = None"
    by (simp add: StatsComputer_init_def)
  have run: "wavedash_compute example_common (StatsComputer_init (3, 5, 0) 0)
       waveland_frames [] = Inr (StatsComputer_init (3, 5, 0) 0, [])"
    by code_simp
  have land: "Post.state (post (waveland_frames ! 7)) = ActionState_LAND_FALL_SPECIAL
      \<and> Post.state (post (waveland_frames ! 6)) \<noteq> ActionState_LAND_FALL_SPECIAL"
    by code_simp
  show ?thesis
    using wavedash_compute_appends_nothing[OF init, of example_common waveland_frames "[]"
        "StatsComputer_init (3, 5, 0) 0" "[]" 0] init run land
    by simp
qed


section \<open>Properties of combo\_compute\<close>

text \<open>
  The invariant \<open>combo_frames_ok\<close> reads only the store of combos and the active combo,
  it is kept by a later bound, and it is kept by an assignment that leaves the start and
  end frames of the active combo alone.  A new combo starts at the current frame with
  the end frame 0, and the termination writes the current frame as the end frame and
  makes the combo inactive.
\<close>

lemma combo_frames_ok_fields:
  "combo_objects self' = combo_objects self \<Longrightarrow> combo self' = combo self \<Longrightarrow>
   combo_frames_ok b (self', cs) = combo_frames_ok b (self, cs)"
  by (simp add: combo_frames_ok_def)























section \<open>The first iteration of the frame loops\<close>

















section \<open>Properties of the decoder\<close>

lemma loop_reaches_loop:
  "loop_reaches P ps tsz skip st st' \<Longrightarrow>
   parse_events_loop P ps tsz skip st = parse_events_loop P ps tsz skip st'"
proof (induction rule: loop_reaches.induct)
  case (reaches_start st)
  show ?case by simp
next
  case (reaches_next st st' st'')
  then show ?case by (simp add: parse_events_loop.simps[of P ps tsz skip st'])
qed



lemma parse_event_unknown_code:
  assumes "pos s < length (bytes s)" "ps (unat (bytes s ! pos s)) = None"
  shows "parse_event P s ps = Inl (Raised UnboundLocalError, s\<lparr> pos := Suc (pos s) \<rparr>)"
proof -
  have "take 1 (drop (pos s) (bytes s)) = [bytes s ! pos s]"
    using assms(1) by (simp add: take_Suc_conv_app_nth Cons_nth_drop_Suc[symmetric])
  then show ?thesis using assms(2)
    by (simp add: parse_event_def stream_read_def unpack_uint8_def)
qed

text \<open>
  Claim C4, as the code has it.  Let the header of a source parse and let the decoding
  loop reach, without an exception, a state in which it runs on and the next byte is an
  event code that the size table does not have.  Then \<open>_parse_try\<close> raises a
  \<open>ParseError\<close> (for the \<open>UnboundLocalError\<close> that \<open>_parse_event\<close> runs into), with the
  file name and, when the source is seekable, with the offset of the byte after the
  unknown code; when the source is not seekable, or has no \<open>seekable\<close> method, the
  error carries no offset.  No handler call is returned: decoding has stopped.
\<close>

theorem unknown_event_code_raises:
  assumes header: "parse_header P source = Inr ((total_size, payload_sizes), s0)"
    and reach: "loop_reaches P payload_sizes total_size skip_frames
        \<lparr> stream = s0, bytes_read = 0, event = None, current_frame = None, handled = [] \<rparr> st"
    and running: "loop_running total_size st"
    and more: "pos (stream st) < length (bytes (stream st))"
    and unknown: "payload_sizes (unat (bytes (stream st) ! pos (stream st))) = None"
  shows "parse_try P source skip_frames path =
           Inl (ParseError UnboundLocalError path
                  (if seekable (stream st) = Some True then Some (Suc (pos (stream st)))
                   else None))"
proof -
  let ?s1 = "(stream st)\<lparr> pos := Suc (pos (stream st)) \<rparr>"
  have "parse_events_body P payload_sizes total_size skip_frames st
          = Inl (Raised UnboundLocalError, ?s1)"
    using parse_event_unknown_code[of "stream st" payload_sizes P, OF more unknown]
    by (simp add: parse_events_body_def)
  then have "parse_events_loop P payload_sizes total_size skip_frames st
          = Inl (Raised UnboundLocalError, ?s1)"
    using running by (simp add: parse_events_loop.simps[of _ _ _ _ st])
  then have "parse_events P s0 payload_sizes total_size skip_frames
          = Inl (Raised UnboundLocalError, ?s1)"
    using loop_reaches_loop[OF reach] by (simp add: parse_events_def)
  then have "parse P source skip_frames = Inl (Raised UnboundLocalError, ?s1)"
    using header by (simp add: parse_def)
  then show ?thesis
    by (auto simp: parse_try_def wrap_exception_def split: option.splits bool.splits)
qed

text \<open>
  A seekable source with a game-start record and then the unknown code \<open>0x99\<close> at offset
  29: the error carries the offset 30.
\<close>

lemma header_unknown: "parse_header example_decoders (unknown_code_file sk)
   = Inr ((0, example_sizes), (unknown_code_file sk)\<lparr> pos := 26 \<rparr>)"
  by (simp add: parse_header_def read_lengths_def events_length_def expect_bytes_def
      stream_read_def unknown_code_file_def
      example_header_def raw_preamble_def unpack_int32_def parse_event_payloads_def
      unpack_uint8_def unpack_uint16_def example_decoders_def example_event_type_def
      example_sizes_def numeral_3_eq_3)

theorem unknown_event_code_raises_witness:
  "parse_try example_decoders (unknown_code_file (Some True)) False (Some ''game.slp'')
     = Inl (ParseError UnboundLocalError (Some ''game.slp'') (Some 30))"
proof -
  let ?file = "unknown_code_file (Some True)"
  let ?st0 = "\<lparr> stream = ?file\<lparr> pos := 26 \<rparr>, bytes_read = 0, event = None,
                 current_frame = None, handled = [] \<rparr> :: byte list loop_state"
  let ?st1 = "decoding_state (?file\<lparr> pos := 29 \<rparr>) 3 (Some (Start [1, 2])) None
                [Handled_Start [1, 2]]"
  have run0: "loop_running 0 ?st0" by (simp add: loop_running_def is_End_def)
  have body0: "parse_events_body example_decoders example_sizes 0 False ?st0 = Inr ?st1"
    by code_simp
  have reach: "loop_reaches example_decoders example_sizes 0 False ?st0 ?st1"
    by (rule reaches_next[OF reaches_start run0 body0])
  have run1: "loop_running 0 ?st1" by (simp add: loop_running_def is_End_def decoding_state_def)
  have more: "pos (stream ?st1) < length (bytes (stream ?st1))"
    by (simp add: decoding_state_def unknown_code_file_def example_header_def raw_preamble_def)
  have unknown: "example_sizes (unat (bytes (stream ?st1) ! pos (stream ?st1))) = None"
    by (simp add: decoding_state_def unknown_code_file_def example_header_def raw_preamble_def
        example_sizes_def)
  show ?thesis
    using unknown_event_code_raises[OF header_unknown reach run1 more unknown,
        of "Some ''game.slp''"]
    by (simp add: decoding_state_def unknown_code_file_def)
qed

text \<open>
  Claim C4 as stated fails: on the same bytes from a source that is not seekable, or has
  no \<open>seekable\<close> method, the \<open>ParseError\<close> carries no offset.
\<close>

theorem unknown_event_code_no_offset_counterexample:
  "parse_try example_decoders (unknown_code_file (Some False)) False (Some ''game.slp'')
     = Inl (ParseError UnboundLocalError (Some ''game.slp'') None)
   \<and> parse_try example_decoders (unknown_code_file None) False (Some ''game.slp'')
     = Inl (ParseError UnboundLocalError (Some ''game.slp'') None)"
  by code_simp






end
